theory Spec2Isabelle
  imports Complex_Main
begin

section \<open>Python values and errors\<close>

text \<open>
  The module under verification is \<^verbatim>\<open>lib/gui/control_helper.py\<close>. Exceptions of the
  Python runtime are values of \<open>py_error\<close>; a function that can raise returns
  \<open>py_error + 'a\<close> with \<open>Inl\<close> for the exception.
\<close>

datatype py_error = ValueError | KeyError | IndexError | TypeError | AttributeError
  | UnboundLocalError | ZeroDivisionError

text \<open>
  The values an option descriptor carries and a toolkit variable stores. A Python float
  is the rational number it denotes; \<open>PStrs\<close> is a list or tuple of strings.
\<close>

datatype pyval = PNone | PBool bool | PInt int | PFloat rat | PStr string
  | PStrs "string list"

text \<open>
  The \<^verbatim>\<open>type\<close> entry of an option: the classes bool, int and float, which the module
  tells apart, and \<open>TStr\<close> for str and every other class.
\<close>

datatype dtype = TBool | TInt | TFloat | TStr

section \<open>Builtins used by the module\<close>

text \<open>
  \<^verbatim>\<open>range(start, stop, step)\<close> over ints: a zero step raises ValueError; the length
  is computed as CPython does.
\<close>

definition range_len :: "int \<Rightarrow> int \<Rightarrow> int \<Rightarrow> nat" where
  "range_len start stop step =
     (if 0 < step \<and> start < stop then nat ((stop - start - 1) div step + 1)
      else if step < 0 \<and> stop < start then nat ((start - stop - 1) div (- step) + 1)
      else 0)"

definition range_items :: "int \<Rightarrow> int \<Rightarrow> int \<Rightarrow> int list" where
  "range_items start stop step =
     map (\<lambda>i. start + int i * step) [0 ..< range_len start stop step]"

definition py_range :: "int \<Rightarrow> int \<Rightarrow> int \<Rightarrow> py_error + int list" where
  "py_range start stop step =
     (if step = 0 then Inl ValueError else Inr (range_items start stop step))"

text \<open>
  \<^verbatim>\<open>min(iterable, key=f)\<close>: ValueError on an empty iterable; otherwise the items are
  visited in order and the running best is replaced only by an item whose key is
  strictly smaller.
\<close>

fun py_min_key :: "('a \<Rightarrow> int) \<Rightarrow> 'a list \<Rightarrow> py_error + 'a" where
  "py_min_key f [] = Inl ValueError"
| "py_min_key f (x # xs) = Inr (foldl (\<lambda>best y. if f y < f best then y else best) x xs)"

text \<open>\<^verbatim>\<open>int(x)\<close> of a float: truncation toward zero.\<close>

definition py_int_of_float :: "rat \<Rightarrow> int" where
  "py_int_of_float x = (if 0 \<le> x then \<lfloor>x\<rfloor> else \<lceil>x\<rceil>)"

subsection \<open>String methods\<close>

text \<open>
  Strings are lists of characters. Case mapping and character classes are those of
  ASCII; every other character is left as it is.
\<close>

definition is_upper :: "char \<Rightarrow> bool" where
  "is_upper c = (65 \<le> (of_char c :: nat) \<and> (of_char c :: nat) \<le> 90)"

definition is_lower :: "char \<Rightarrow> bool" where
  "is_lower c = (97 \<le> (of_char c :: nat) \<and> (of_char c :: nat) \<le> 122)"

definition is_digit :: "char \<Rightarrow> bool" where
  "is_digit c = (48 \<le> (of_char c :: nat) \<and> (of_char c :: nat) \<le> 57)"

definition is_space :: "char \<Rightarrow> bool" where
  "is_space c = ((9 \<le> (of_char c :: nat) \<and> (of_char c :: nat) \<le> 13)
     \<or> (28 \<le> (of_char c :: nat) \<and> (of_char c :: nat) \<le> 32))"

definition is_linebreak :: "char \<Rightarrow> bool" where
  "is_linebreak c = ((10 \<le> (of_char c :: nat) \<and> (of_char c :: nat) \<le> 13)
     \<or> (28 \<le> (of_char c :: nat) \<and> (of_char c :: nat) \<le> 30))"

definition upper_char :: "char \<Rightarrow> char" where
  "upper_char c = (if is_lower c then char_of (of_char c - (32 :: nat)) else c)"

definition lower_char :: "char \<Rightarrow> char" where
  "lower_char c = (if is_upper c then char_of (of_char c + (32 :: nat)) else c)"

definition py_lower :: "string \<Rightarrow> string" where
  "py_lower s = map lower_char s"

text \<open>\<^verbatim>\<open>s.capitalize()\<close>: the first character in upper case, all others in lower case.\<close>

fun py_capitalize :: "string \<Rightarrow> string" where
  "py_capitalize [] = []"
| "py_capitalize (c # cs) = upper_char c # map lower_char cs"

text \<open>
  \<^verbatim>\<open>s.title()\<close>: a cased character is upper case when the character before it is not
  cased, and lower case otherwise.
\<close>

fun title_from :: "bool \<Rightarrow> string \<Rightarrow> string" where
  "title_from prev [] = []"
| "title_from prev (c # cs) =
     (if is_lower c then (if prev then c else upper_char c) # title_from True cs
      else if is_upper c then (if prev then lower_char c else c) # title_from True cs
      else c # title_from False cs)"

definition py_title :: "string \<Rightarrow> string" where
  "py_title s = title_from False s"

definition py_startswith :: "string \<Rightarrow> string \<Rightarrow> bool" where
  "py_startswith s p = (take (length p) s = p)"

text \<open>
  \<^verbatim>\<open>s.replace(old, new)\<close>: occurrences of \<open>old\<close> are found from the left and do not
  overlap. With an empty \<open>old\<close>, \<open>new\<close> is put before every character and at the end.
\<close>

fun replace_from :: "string \<Rightarrow> string \<Rightarrow> string \<Rightarrow> string" where
  "replace_from old new [] = []"
| "replace_from old new (c # cs) =
     (if py_startswith (c # cs) old then new @ replace_from old new (drop (length old - 1) cs)
      else c # replace_from old new cs)"

definition py_replace :: "string \<Rightarrow> string \<Rightarrow> string \<Rightarrow> string" where
  "py_replace old new s =
     (if old = [] then new @ concat (map (\<lambda>c. c # new) s) else replace_from old new s)"

text \<open>
  \<^verbatim>\<open>s.split(sep)\<close> for a separator that is not empty (the module only splits on the
  literal \<^verbatim>\<open>". "\<close>): the pieces between the occurrences of \<open>sep\<close>, found from the
  left; a string without the separator is its own single piece.
\<close>

fun py_split :: "string \<Rightarrow> string \<Rightarrow> string list" where
  "py_split sep [] = [[]]"
| "py_split sep (c # cs) =
     (if sep \<noteq> [] \<and> py_startswith (c # cs) sep
      then [] # py_split sep (drop (length sep - 1) cs)
      else (case py_split sep cs of
              [] \<Rightarrow> [[c]]
            | seg # segs \<Rightarrow> (c # seg) # segs))"

text \<open>\<^verbatim>\<open>sep.join(items)\<close>.\<close>

fun py_join :: "string \<Rightarrow> string list \<Rightarrow> string" where
  "py_join sep [] = []"
| "py_join sep [x] = x"
| "py_join sep (x # y # ys) = x @ sep @ py_join sep (y # ys)"

text \<open>\<^verbatim>\<open>s.split()\<close>: the maximal runs of characters that are not white space.\<close>

fun split_ws_from :: "string \<Rightarrow> string \<Rightarrow> string list" where
  "split_ws_from cur [] = (if cur = [] then [] else [cur])"
| "split_ws_from cur (c # cs) =
     (if is_space c then (if cur = [] then split_ws_from [] cs else cur # split_ws_from [] cs)
      else split_ws_from (cur @ [c]) cs)"

definition py_split_ws :: "string \<Rightarrow> string list" where
  "py_split_ws s = split_ws_from [] s"

text \<open>
  \<^verbatim>\<open>s.splitlines()\<close>: the lines without their line breaks; a carriage return followed
  by a line feed is one break, and a break at the very end starts no further line.
\<close>

fun splitlines_from :: "string \<Rightarrow> string \<Rightarrow> string list" where
  "splitlines_from cur [] = (if cur = [] then [] else [cur])"
| "splitlines_from cur [c] = (if is_linebreak c then [cur] else [cur @ [c]])"
| "splitlines_from cur (c # d # ds) =
     (if c = CHR 0x0D \<and> d = CHR 0x0A then cur # splitlines_from [] ds
      else if is_linebreak c then cur # splitlines_from [] (d # ds)
      else splitlines_from (cur @ [c]) (d # ds))"

definition py_splitlines :: "string \<Rightarrow> string list" where
  "py_splitlines s = splitlines_from [] s"

text \<open>\<^verbatim>\<open>re.sub(r'[^A-Za-z0-9\-]+', '', s)\<close>: the characters outside the class are dropped.\<close>

definition strip_non_word :: "string \<Rightarrow> string" where
  "strip_non_word s = filter (\<lambda>c. is_upper c \<or> is_lower c \<or> is_digit c \<or> c = CHR ''-'') s"

section \<open>The toolkit: variables and widgets\<close>

text \<open>
  The widget toolkit is an external collaborator. Its state is an explicit store:
  widgets are the objects created so far, in creation order, each identified by its
  position; toolkit variables and the module's shared container objects are numbered
  cells. What the toolkit itself does with a stored value (converting it to the class
  of the variable, resolving path names) is not part of the module.
\<close>

datatype wclass = Toplevel | Frame | LabelFrame | Label | Entry | Combobox | Checkbutton
  | Radiobutton | Scale | Button | Canvas | Scrollbar

text \<open>
  The \<^verbatim>\<open>name=\<close> argument of a widget: none, a string, or
  \<^verbatim>\<open>"{}_{}".format(parent.winfo_name(), idx)\<close>, kept as the parent and the index.
\<close>

datatype wname = NoName | Name string | SubName nat int

text \<open>
  A callback bound to a widget: the slider's rounding closure with the arguments it
  captured, a file browser's \<^verbatim>\<open>ask_\<close> routine by its kind, a canvas's
  \<^verbatim>\<open>yview\<close>.
\<close>

datatype command =
    SliderRounding nat dtype "int option" "(pyval \<times> pyval) option"
  | AskCmd string
  | YView nat

record widget =
  w_class :: wclass
  w_master :: nat
  w_name :: wname
  w_text :: "string option"
  w_var :: "nat option"
  w_value :: "string option"
  w_style :: "string option"
  w_width :: "int option"
  w_command :: "command option"

definition mk_widget :: "wclass \<Rightarrow> nat \<Rightarrow> widget" where
  "mk_widget cls master =
     \<lparr>w_class = cls, w_master = master, w_name = NoName, w_text = None, w_var = None,
      w_value = None, w_style = None, w_width = None, w_command = None\<rparr>"

text \<open>
  \<^verbatim>\<open>class AutoFillContainer\<close>: the object's attributes. Containers are shared
  between a panel, its groups and the control builders, so they live in the store.
\<close>

record afc =
  afc_parent :: nat
  afc_columns :: int
  afc_items :: nat
  afc_idx :: nat
  afc_subframes :: "nat list"

record world =
  widgets :: "widget list"
  next_var :: nat
  var_class :: "nat \<Rightarrow> dtype"
  vars :: "nat \<Rightarrow> pyval"
  packed :: "nat list"
  tooltips :: "(nat \<times> string option \<times> nat) list"
  context_menus :: "nat list"
  configured :: "(nat \<times> string \<times> pyval) list"
  bindings :: "(nat \<times> string) list"
  styles :: "string list"
  icons :: "string list"
  next_afc :: nat
  containers :: "nat \<Rightarrow> afc"

definition new_widget :: "widget \<Rightarrow> world \<Rightarrow> nat \<times> world" where
  "new_widget wd w = (length (widgets w), w\<lparr>widgets := widgets w @ [wd]\<rparr>)"

definition pack :: "nat \<Rightarrow> world \<Rightarrow> world" where
  "pack i w = w\<lparr>packed := packed w @ [i]\<rparr>"

definition var_set :: "nat \<Rightarrow> pyval \<Rightarrow> world \<Rightarrow> world" where
  "var_set v x w = w\<lparr>vars := (vars w)(v := x)\<rparr>"

definition var_get :: "nat \<Rightarrow> world \<Rightarrow> pyval" where
  "var_get v w = vars w v"

definition new_var :: "dtype \<Rightarrow> world \<Rightarrow> nat \<times> world" where
  "new_var cls w =
     (next_var w, w\<lparr>next_var := Suc (next_var w), var_class := (var_class w)(next_var w := cls)\<rparr>)"

definition Tooltip :: "nat \<Rightarrow> string option \<Rightarrow> nat \<Rightarrow> world \<Rightarrow> world" where
  "Tooltip i txt wrap w = w\<lparr>tooltips := tooltips w @ [(i, txt, wrap)]\<rparr>"

definition cm_bind :: "nat \<Rightarrow> world \<Rightarrow> world" where
  "cm_bind i w = w\<lparr>context_menus := context_menus w @ [i]\<rparr>"

definition configure :: "nat \<Rightarrow> string \<Rightarrow> pyval \<Rightarrow> world \<Rightarrow> world" where
  "configure i key val w = w\<lparr>configured := configured w @ [(i, key, val)]\<rparr>"

text \<open>
  A binding records the widget and the event. The handlers bound to resize events
  (\<^verbatim>\<open>adjust_wraplength\<close>, \<^verbatim>\<open>update_scrollbar\<close>, \<^verbatim>\<open>resize_frame\<close>) only pass
  sizes that the toolkit reports back to it; they are not modelled.
\<close>

definition bind :: "nat \<Rightarrow> string \<Rightarrow> world \<Rightarrow> world" where
  "bind i event w = w\<lparr>bindings := bindings w @ [(i, event)]\<rparr>"

definition style_configure :: "string \<Rightarrow> world \<Rightarrow> world" where
  "style_configure name w = w\<lparr>styles := styles w @ [name]\<rparr>"

text \<open>A toolkit in which nothing has been created yet, with the given icon names.\<close>

definition fresh_world :: "string list \<Rightarrow> world" where
  "fresh_world icon_names =
     \<lparr>widgets = [], next_var = 0, var_class = (\<lambda>_. TStr), vars = (\<lambda>_. PNone), packed = [],
      tooltips = [], context_menus = [], configured = [], bindings = [], styles = [],
      icons = icon_names, next_afc = 0,
      containers = (\<lambda>_. \<lparr>afc_parent = 0, afc_columns = 0, afc_items = 0, afc_idx = 0,
                              afc_subframes = []\<rparr>)\<rparr>"

text \<open>
  Two states of the toolkit with the same variables, variable classes and icons: between
  them only widgets, their layout and their decorations may differ.
\<close>

definition same_cells :: "world \<Rightarrow> world \<Rightarrow> bool" where
  "same_cells w w' =
     (vars w' = vars w \<and> var_class w' = var_class w \<and> next_var w' = next_var w
      \<and> icons w' = icons w)"

text \<open>The toolkit after start-up: the root window is widget 0, and nothing else exists.\<close>

definition tk_root :: "string list \<Rightarrow> world" where
  "tk_root icon_names = snd (new_widget (mk_widget Toplevel 0) (fresh_world icon_names))"

text \<open>Truth value of a Python value, as \<^verbatim>\<open>if x:\<close> tests it.\<close>

fun truthy :: "pyval \<Rightarrow> bool" where
  "truthy PNone = False"
| "truthy (PBool b) = b"
| "truthy (PInt i) = (i \<noteq> 0)"
| "truthy (PFloat x) = (x \<noteq> 0)"
| "truthy (PStr s) = (s \<noteq> [])"
| "truthy (PStrs xs) = (xs \<noteq> [])"

text \<open>The int a value is where \<^verbatim>\<open>range\<close> accepts it (bool is a subclass of int).\<close>

fun as_int :: "pyval \<Rightarrow> int option" where
  "as_int (PInt i) = Some i"
| "as_int (PBool b) = Some (if b then 1 else 0)"
| "as_int _ = None"

section \<open>Slider rounding\<close>

text \<open>
  \<^verbatim>\<open>set_slider_rounding(value, var, d_type, round_to, min_max)\<close>. The raw value is the
  float that \<^verbatim>\<open>float(value)\<close> yields. Python's \<^verbatim>\<open>round\<close> on floats is a
  parameter \<open>rnd\<close>: it is floating-point arithmetic of the runtime.
\<close>

definition slider_steps :: "int option \<Rightarrow> (pyval \<times> pyval) option \<Rightarrow> py_error + int list" where
  "slider_steps round_to min_max =
     (case min_max of
        None \<Rightarrow> Inl TypeError
      | Some (lo, hi) \<Rightarrow>
          (case (as_int lo, as_int hi, round_to) of
             (Some a, Some b, Some step) \<Rightarrow> py_range a (b + step) step
           | _ \<Rightarrow> Inl TypeError))"

definition set_slider_rounding ::
  "(rat \<Rightarrow> int option \<Rightarrow> pyval) \<Rightarrow> rat \<Rightarrow> nat \<Rightarrow> dtype \<Rightarrow> int option \<Rightarrow> (pyval \<times> pyval) option
     \<Rightarrow> world \<Rightarrow> py_error + world" where
  "set_slider_rounding rnd val var d_type round_to min_max w =
     (if d_type = TFloat then Inr (var_set var (rnd val round_to) w)
      else
        (case slider_steps round_to min_max of
           Inl e \<Rightarrow> Inl e
         | Inr steps \<Rightarrow>
             (case py_min_key (\<lambda>x. \<bar>x - py_int_of_float val\<bar>) steps of
                Inl e \<Rightarrow> Inl e
              | Inr v \<Rightarrow> Inr (var_set var (PInt v) w))))"

section \<open>The auto-fill container\<close>

text \<open>
  \<^verbatim>\<open>AutoFillContainer.set_subframes\<close>: the loop over \<^verbatim>\<open>range(self.columns)\<close>.
  The state of the loop is the list of subframes so far, \<^verbatim>\<open>self._items\<close> and the
  toolkit.
\<close>

fun set_subframes_loop ::
  "nat \<Rightarrow> int \<Rightarrow> int list \<Rightarrow> nat list \<times> nat \<times> world \<Rightarrow> nat list \<times> nat \<times> world" where
  "set_subframes_loop parent columns [] st = st"
| "set_subframes_loop parent columns (idx # rest) (subframes, items, w) =
     (if columns \<noteq> 1
      then (let (subframe, w1) = new_widget ((mk_widget Frame parent)\<lparr>w_name := SubName parent idx\<rparr>) w;
                w2 = pack subframe w1
            in set_subframes_loop parent columns rest (subframes @ [subframe], Suc items, w2))
      else set_subframes_loop parent columns rest (subframes @ [parent], Suc items, w))"

definition set_subframes :: "nat \<Rightarrow> int \<Rightarrow> world \<Rightarrow> nat list \<times> nat \<times> world" where
  "set_subframes parent columns w =
     set_subframes_loop parent columns (range_items 0 columns 1) ([], 0, w)"

text \<open>\<^verbatim>\<open>AutoFillContainer.__init__\<close>: the new object and the toolkit after it.\<close>

definition AutoFillContainer :: "nat \<Rightarrow> int \<Rightarrow> world \<Rightarrow> afc \<times> world" where
  "AutoFillContainer parent columns w =
     (let (subframes, items, w1) = set_subframes parent columns w
      in (\<lparr>afc_parent = parent, afc_columns = columns, afc_items = items, afc_idx = 0,
           afc_subframes = subframes\<rparr>, w1))"

text \<open>The property \<^verbatim>\<open>items\<close>.\<close>

definition items :: "afc \<Rightarrow> nat" where
  "items a = afc_items a"

text \<open>
  The property \<^verbatim>\<open>subframe\<close>: the subframe under the cursor, and the object with its
  cursor moved on. An index past the list raises IndexError.
\<close>

definition subframe :: "afc \<Rightarrow> py_error + (nat \<times> afc)" where
  "subframe a =
     (if afc_idx a < length (afc_subframes a)
      then (let frame = afc_subframes a ! afc_idx a;
                next_idx = (if int (afc_idx a) + 1 \<noteq> afc_columns a then afc_idx a + 1 else 0)
            in Inr (frame, a\<lparr>afc_idx := next_idx\<rparr>))
      else Inl IndexError)"

text \<open>The property \<^verbatim>\<open>last_subframe\<close>; Python counts a negative index from the end.\<close>

definition last_subframe :: "afc \<Rightarrow> py_error + nat" where
  "last_subframe a =
     (if afc_columns a - 1 < 0
      then (if - int (length (afc_subframes a)) \<le> afc_columns a - 1
            then Inr (afc_subframes a ! nat (int (length (afc_subframes a)) + afc_columns a - 1))
            else Inl IndexError)
      else (if afc_columns a - 1 < int (length (afc_subframes a))
            then Inr (afc_subframes a ! nat (afc_columns a - 1))
            else Inl IndexError))"

text \<open>\<open>n\<close> successive reads of \<^verbatim>\<open>subframe\<close>: the frames returned, in order.\<close>

fun subframe_requests :: "nat \<Rightarrow> afc \<Rightarrow> py_error + (nat list \<times> afc)" where
  "subframe_requests 0 a = Inr ([], a)"
| "subframe_requests (Suc n) a =
     (case subframe a of
        Inl e \<Rightarrow> Inl e
      | Inr (frame, a1) \<Rightarrow>
          (case subframe_requests n a1 of
             Inl e \<Rightarrow> Inl e
           | Inr (frames, a2) \<Rightarrow> Inr (frame # frames, a2)))"

text \<open>Containers in the store: creating one, and reading \<^verbatim>\<open>subframe\<close> through a reference.\<close>

definition new_afc :: "nat \<Rightarrow> int \<Rightarrow> world \<Rightarrow> nat \<times> world" where
  "new_afc parent columns w =
     (let (a, w1) = AutoFillContainer parent columns w
      in (next_afc w1, w1\<lparr>next_afc := Suc (next_afc w1),
                           containers := (containers w1)(next_afc w1 := a)\<rparr>))"

definition subframe_of :: "nat \<Rightarrow> world \<Rightarrow> py_error + (nat \<times> world)" where
  "subframe_of h w =
     (case subframe (containers w h) of
        Inl e \<Rightarrow> Inl e
      | Inr (frame, a) \<Rightarrow> Inr (frame, w\<lparr>containers := (containers w)(h := a)\<rparr>))"

section \<open>Help text\<close>

text \<open>
  \<^verbatim>\<open>ControlBuilder.format_helptext\<close>; \<open>title\<close> is \<^verbatim>\<open>self.title\<close>.
\<close>

definition format_helptext :: "string \<Rightarrow> string option \<Rightarrow> string option" where
  "format_helptext title helptext =
     (case helptext of
        None \<Rightarrow> None
      | Some h \<Rightarrow>
          (let h1 = (if py_startswith h ''R|''
                     then py_replace ''\<newline>'' ''\<newline>\<newline>''
                            (py_replace ''\<newline>L|'' ''\<newline> - '' (drop 2 h))
                     else py_replace ''%%'' ''%''
                            (py_replace [CHR 0x0A, CHR 0x09] ''\<newline>  - '' h));
               h2 = py_join ''. '' (map py_capitalize (py_split ''. '' h1))
           in Some (title @ '' - '' @ h2)))"

section \<open>The file browser\<close>

text \<open>
  The \<^verbatim>\<open>sysbrowser\<close> entry of an option, with its two required keys and its three
  optional ones.
\<close>

record sysbrowser =
  sb_browser :: "string list"
  sb_filetypes :: string
  sb_action_option :: "string option"
  sb_command :: "string option"
  sb_destination :: "string option"

text \<open>
  \<^verbatim>\<open>self.action_option\<close> of a file browser: \<^verbatim>\<open>None\<close>, the name of an option,
  or (once resolved) a toolkit variable.
\<close>

datatype action_opt = ActNone | ActName string | ActVar nat

record filebrowser =
  fb_tk_var :: nat
  fb_frame :: nat
  fb_browser :: "string list"
  fb_filetypes :: string
  fb_action_option :: action_opt
  fb_command :: "string option"
  fb_destination :: "string option"

text \<open>
  The external file handler: \<^verbatim>\<open>FileHandler(handletype, filetypes, command=..., action=...,
  variable=...).retfile\<close> is what the user chose in the dialog, so it is a parameter of
  every routine that opens one.
\<close>

record fh_request =
  fh_handletype :: string
  fh_filetypes :: string
  fh_command :: "string option"
  fh_action :: "pyval option"
  fh_variable :: "string option"

type_synonym file_handler = "fh_request \<Rightarrow> pyval"

definition fh_plain :: "string \<Rightarrow> string \<Rightarrow> fh_request" where
  "fh_plain handletype filetypes =
     \<lparr>fh_handletype = handletype, fh_filetypes = filetypes, fh_command = None,
      fh_action = None, fh_variable = None\<rparr>"

text \<open>The property \<^verbatim>\<open>helptext\<close>: the tooltip of each kind of button.\<close>

definition fb_helptext :: "(string \<times> string) list" where
  "fb_helptext =
     [(''folder'', ''Select a folder...''),
      (''load'', ''Select a file...''),
      (''load_multi'', ''Select one or more files...''),
      (''context'', ''Select a file or folder...''),
      (''save'', ''Select a save location...'')]"

text \<open>The kinds for which the class has a method \<^verbatim>\<open>ask_\<close>kind.\<close>

definition ask_kinds :: "string list" where
  "ask_kinds = [''folder'', ''load'', ''load_multi'', ''save'', ''nothing'', ''context'']"

fun add_browser_buttons :: "filebrowser \<Rightarrow> string list \<Rightarrow> world \<Rightarrow> py_error + world" where
  "add_browser_buttons fb [] w = Inr w"
| "add_browser_buttons fb (browser # rest) w =
     (if browser \<notin> set (icons w) then Inl KeyError
      else if browser \<notin> set ask_kinds then Inl AttributeError
      else (let (fileopn, w1) =
                  new_widget ((mk_widget Button (fb_frame fb))\<lparr>w_command := Some (AskCmd browser)\<rparr>) w;
                w2 = pack fileopn w1
            in case map_of fb_helptext browser of
                 None \<Rightarrow> Inl KeyError
               | Some txt \<Rightarrow> add_browser_buttons fb rest (Tooltip fileopn (Some txt) 200 w2)))"

text \<open>\<^verbatim>\<open>FileBrowser.__init__\<close>.\<close>

definition FileBrowser :: "nat \<Rightarrow> nat \<Rightarrow> sysbrowser \<Rightarrow> world \<Rightarrow> py_error + (filebrowser \<times> world)" where
  "FileBrowser tk_var control_frame sb w =
     (let fb = \<lparr>fb_tk_var = tk_var, fb_frame = control_frame, fb_browser = sb_browser sb,
                fb_filetypes = sb_filetypes sb,
                fb_action_option = (case sb_action_option sb of None \<Rightarrow> ActNone | Some n \<Rightarrow> ActName n),
                fb_command = sb_command sb, fb_destination = sb_destination sb\<rparr>
      in case add_browser_buttons fb (fb_browser fb) w of
           Inl e \<Rightarrow> Inl e
         | Inr w1 \<Rightarrow> Inr (fb, w1))"

definition ask_folder :: "file_handler \<Rightarrow> nat \<Rightarrow> string \<Rightarrow> world \<Rightarrow> py_error + world" where
  "ask_folder fh filepath filetypes w =
     (let dirname = fh (fh_plain ''dir'' filetypes)
      in if truthy dirname then Inr (var_set filepath dirname w) else Inr w)"

definition ask_load :: "file_handler \<Rightarrow> nat \<Rightarrow> string \<Rightarrow> world \<Rightarrow> py_error + world" where
  "ask_load fh filepath filetypes w =
     (let filename = fh (fh_plain ''filename'' filetypes)
      in if truthy filename then Inr (var_set filepath filename w) else Inr w)"

text \<open>\<^verbatim>\<open>"\"{}\"".format(fname)\<close>.\<close>

definition quoted :: "string \<Rightarrow> string" where
  "quoted fname = CHR 0x22 # fname @ [CHR 0x22]"

text \<open>
  In \<^verbatim>\<open>ask_load_multi\<close> the result is iterated: a list gives its items, a string its
  characters, and a true value that cannot be iterated raises TypeError.
\<close>

definition ask_load_multi :: "file_handler \<Rightarrow> nat \<Rightarrow> string \<Rightarrow> world \<Rightarrow> py_error + world" where
  "ask_load_multi fh filepath filetypes w =
     (let filenames = fh (fh_plain ''filename_multi'' filetypes)
      in if truthy filenames
         then (case filenames of
                 PStrs fs \<Rightarrow> Inr (var_set filepath (PStr (py_join '' '' (map quoted fs))) w)
               | PStr cs \<Rightarrow>
                   Inr (var_set filepath (PStr (py_join '' '' (map (\<lambda>c. quoted [c]) cs))) w)
               | _ \<Rightarrow> Inl TypeError)
         else Inr w)"

definition ask_save :: "file_handler \<Rightarrow> nat \<Rightarrow> string \<Rightarrow> world \<Rightarrow> py_error + world" where
  "ask_save fh filepath filetypes w =
     (let filename = fh (fh_plain ''savefilename'' filetypes)
      in if truthy filename then Inr (var_set filepath filename w) else Inr w)"

definition ask_nothing :: "file_handler \<Rightarrow> nat \<Rightarrow> string \<Rightarrow> world \<Rightarrow> py_error + world" where
  "ask_nothing fh filepath filetypes w = Inr w"

text \<open>
  \<^verbatim>\<open>ask_context\<close> reads \<^verbatim>\<open>self.action_option.get()\<close>: only a toolkit variable has
  that method.
\<close>

definition ask_context ::
  "filebrowser \<Rightarrow> file_handler \<Rightarrow> nat \<Rightarrow> string \<Rightarrow> world \<Rightarrow> py_error + world" where
  "ask_context fb fh filepath filetypes w =
     (case fb_action_option fb of
        ActVar v \<Rightarrow>
          (let selected_action = var_get v w;
               selected_variable = fb_destination fb;
               filename = fh \<lparr>fh_handletype = ''context'', fh_filetypes = filetypes,
                               fh_command = fb_command fb, fh_action = Some selected_action,
                               fh_variable = selected_variable\<rparr>
           in if truthy filename then Inr (var_set filepath filename w) else Inr w)
      | _ \<Rightarrow> Inl AttributeError)"

text \<open>
  A click on the button of kind \<open>browser\<close>: the command bound in
  \<^verbatim>\<open>add_browser_buttons\<close> calls the method \<^verbatim>\<open>ask_\<close>\<open>browser\<close> with
  \<^verbatim>\<open>self.tk_var\<close> and \<^verbatim>\<open>self.filetypes\<close>.
\<close>

definition click :: "filebrowser \<Rightarrow> file_handler \<Rightarrow> string \<Rightarrow> world \<Rightarrow> py_error + world" where
  "click fb fh browser w =
     (if browser = ''folder'' then ask_folder fh (fb_tk_var fb) (fb_filetypes fb) w
      else if browser = ''load'' then ask_load fh (fb_tk_var fb) (fb_filetypes fb) w
      else if browser = ''load_multi'' then ask_load_multi fh (fb_tk_var fb) (fb_filetypes fb) w
      else if browser = ''save'' then ask_save fh (fb_tk_var fb) (fb_filetypes fb) w
      else if browser = ''nothing'' then ask_nothing fh (fb_tk_var fb) (fb_filetypes fb) w
      else if browser = ''context'' then ask_context fb fh (fb_tk_var fb) (fb_filetypes fb) w
      else Inl AttributeError)"

section \<open>The control builder\<close>

text \<open>\<^verbatim>\<open>class ControlBuilder\<close>: the attributes of the object.\<close>

record control_builder =
  cb_title :: string
  cb_default :: pyval
  cb_helptext :: "string option"
  cb_helpset :: bool
  cb_label_width :: int
  cb_filebrowser :: "filebrowser option"
  cb_frame :: nat
  cb_chkbtns :: "nat option"
  cb_control :: wclass
  cb_tk_var :: nat

text \<open>\<^verbatim>\<open>if choices:\<close> on a list or \<^verbatim>\<open>None\<close>.\<close>

definition has_choices :: "string list option \<Rightarrow> bool" where
  "has_choices choices = (case choices of None \<Rightarrow> False | Some cs \<Rightarrow> cs \<noteq> [])"

definition control_frame :: "nat \<Rightarrow> world \<Rightarrow> nat \<times> world" where
  "control_frame parent w =
     (let (frame, w1) = new_widget (mk_widget Frame parent) w in (frame, pack frame w1))"

text \<open>
  \<^verbatim>\<open>set_control\<close>: the class of the control. \<open>TStr\<close> stands for str and for every
  class other than bool, int and float, which the module treats alike.
\<close>

definition set_control :: "dtype \<Rightarrow> string list option \<Rightarrow> bool \<Rightarrow> wclass" where
  "set_control dtype choices is_radio =
     (if has_choices choices \<and> is_radio then Radiobutton
      else if has_choices choices then Combobox
      else if dtype = TBool then Checkbutton
      else if dtype = TInt \<or> dtype = TFloat then Scale
      else Entry)"

text \<open>
  \<^verbatim>\<open>set_tk_var\<close>: a new toolkit variable of the class for \<open>dtype\<close>, set to its
  initial value; \<open>dflt\<close> is \<^verbatim>\<open>self.default\<close>.
\<close>

definition initial_value :: "pyval \<Rightarrow> pyval \<Rightarrow> bool \<Rightarrow> pyval" where
  "initial_value dflt selected_value blank_nones =
     (let val = (if selected_value = PNone then dflt else selected_value)
      in if val = PNone \<and> blank_nones then PStr [] else val)"

definition set_tk_var :: "pyval \<Rightarrow> dtype \<Rightarrow> pyval \<Rightarrow> bool \<Rightarrow> world \<Rightarrow> nat \<times> world" where
  "set_tk_var dflt dtype selected_value blank_nones w =
     (let cls = (if dtype = TBool then TBool else if dtype = TInt then TInt
                 else if dtype = TFloat then TFloat else TStr);
          (var, w1) = new_var cls w
      in (var, var_set var (initial_value dflt selected_value blank_nones) w1))"

text \<open>\<^verbatim>\<open>self.title.replace("_", " ").title()\<close>.\<close>

definition display_title :: "string \<Rightarrow> string" where
  "display_title title = py_title (py_replace ''_'' '' '' title)"

definition build_control_label :: "control_builder \<Rightarrow> world \<Rightarrow> world" where
  "build_control_label self w =
     (let (lbl, w1) = new_widget ((mk_widget Label (cb_frame self))
                         \<lparr>w_text := Some (display_title (cb_title self)),
                          w_width := Some (cb_label_width self)\<rparr>) w;
          w2 = pack lbl w1
      in if cb_helptext self \<noteq> None then Tooltip lbl (cb_helptext self) 720 w2 else w2)"

definition set_control_width :: "nat \<Rightarrow> int option \<Rightarrow> world \<Rightarrow> world" where
  "set_control_width ctl control_width w =
     (case control_width of None \<Rightarrow> w | Some n \<Rightarrow> configure ctl ''width'' (PInt n) w)"

text \<open>
  \<^verbatim>\<open>slider_control\<close>: \<^verbatim>\<open>min_max[0]\<close> on \<^verbatim>\<open>None\<close> raises TypeError after the
  widgets have been created.
\<close>

definition slider_control ::
  "control_builder \<Rightarrow> dtype \<Rightarrow> int option \<Rightarrow> (pyval \<times> pyval) option \<Rightarrow> world
     \<Rightarrow> py_error + (nat \<times> world)" where
  "slider_control self dtype rounding min_max w =
     (let (tbox, w1) = new_widget ((mk_widget Entry (cb_frame self))
                          \<lparr>w_var := Some (cb_tk_var self), w_width := Some 8\<rparr>) w;
          w2 = pack tbox w1;
          (ctl, w3) = new_widget ((mk_widget (cb_control self) (cb_frame self))
                         \<lparr>w_var := Some (cb_tk_var self),
                          w_command := Some (SliderRounding (cb_tk_var self) dtype rounding min_max)\<rparr>) w2;
          w4 = cm_bind tbox w3
      in case min_max of
           None \<Rightarrow> Inl TypeError
         | Some (lo, hi) \<Rightarrow> Inr (ctl, configure ctl ''to'' hi (configure ctl ''from_'' lo w4)))"

text \<open>
  The dictionary \<^verbatim>\<open>helpitems\<close> of \<^verbatim>\<open>radio_control\<close>, as the list of its entries in
  the order of the lines; a later entry with the same key stands for the earlier one.
  \<^verbatim>\<open>line.split()[1]\<close> raises IndexError on a bullet line without a second word.
\<close>

fun helpitems_of :: "string list \<Rightarrow> py_error + (string \<times> string) list" where
  "helpitems_of [] = Inr []"
| "helpitems_of (line # rest) =
     (if py_startswith line '' - ''
      then (case py_split_ws line of
              first # second # others \<Rightarrow>
                (case helpitems_of rest of
                   Inl e \<Rightarrow> Inl e
                 | Inr entries \<Rightarrow>
                     Inr ((strip_non_word (py_lower second), py_join '' '' (second # others)) # entries))
            | _ \<Rightarrow> Inl IndexError)
      else helpitems_of rest)"

definition helpitems_get :: "(string \<times> string) list \<Rightarrow> string \<Rightarrow> string option" where
  "helpitems_get entries key = map_of (rev entries) key"

text \<open>
  The loop of \<^verbatim>\<open>radio_control\<close> over \<^verbatim>\<open>enumerate(choices)\<close>. Its state is the
  radio holder, \<^verbatim>\<open>self.helpset\<close> and the toolkit. \<^verbatim>\<open>idx % columns\<close> raises
  ZeroDivisionError for zero columns.
\<close>

fun radio_loop ::
  "control_builder \<Rightarrow> int \<Rightarrow> string \<Rightarrow> (string \<times> string) list \<Rightarrow> string list
     \<Rightarrow> afc \<times> bool \<times> world \<Rightarrow> py_error + (afc \<times> bool \<times> world)" where
  "radio_loop self columns intro helpitems [] st = Inr st"
| "radio_loop self columns intro helpitems (choice # rest) (radio_holder, helpset, w) =
     (if columns = 0 then Inl ZeroDivisionError
      else (case subframe radio_holder of
              Inl e \<Rightarrow> Inl e
            | Inr (frame, holder1) \<Rightarrow>
                (let (radio, w1) = new_widget ((mk_widget Radiobutton frame)
                                      \<lparr>w_text := Some (py_title choice), w_value := Some choice,
                                       w_var := Some (cb_tk_var self)\<rparr>) w;
                     (helpset1, w2) =
                        (case helpitems_get helpitems (py_lower choice) of
                           None \<Rightarrow> (helpset, w1)
                         | Some item \<Rightarrow>
                             (let helptext = py_capitalize item;
                                  helptext = intro @ ''\<newline>\<newline> - ''
                                    @ py_join ''. '' (map py_capitalize (py_split ''. '' helptext))
                              in (True, Tooltip radio (Some helptext) 400 w1)));
                     w3 = pack radio w2
                 in radio_loop self columns intro helpitems rest (holder1, helpset1, w3))))"

text \<open>
  \<^verbatim>\<open>radio_control\<close>: \<^verbatim>\<open>self.helptext.splitlines()\<close> raises AttributeError when the
  help text is \<^verbatim>\<open>None\<close>, and \<^verbatim>\<open>enumerate(choices)\<close> raises TypeError when the
  choices are. \<open>intro\<close> is read only when a bullet line exists, and then the first
  line exists.
\<close>

definition radio_control ::
  "control_builder \<Rightarrow> string list option \<Rightarrow> int \<Rightarrow> world
     \<Rightarrow> py_error + (nat \<times> control_builder \<times> world)" where
  "radio_control self choices columns w =
     (case cb_helptext self of
        None \<Rightarrow> Inl AttributeError
      | Some helptext \<Rightarrow>
          (let all_help = py_splitlines helptext;
               intro = (case all_help of [] \<Rightarrow> [] | first # _ \<Rightarrow> first)
           in case helpitems_of all_help of
                Inl e \<Rightarrow> Inl e
              | Inr helpitems \<Rightarrow>
                  (let (ctl, w1) = new_widget ((mk_widget LabelFrame (cb_frame self))
                                       \<lparr>w_text := Some (display_title (cb_title self)),
                                        w_style := Some ''BlueText.TLabelframe''\<rparr>) w;
                       (radio_holder, w2) = AutoFillContainer ctl columns w1
                   in case choices of
                        None \<Rightarrow> Inl TypeError
                      | Some cs \<Rightarrow>
                          (case radio_loop self columns intro helpitems cs
                                  (radio_holder, cb_helpset self, w2) of
                             Inl e \<Rightarrow> Inl e
                           | Inr (holder1, helpset, w3) \<Rightarrow>
                               Inr (afc_parent holder1, self\<lparr>cb_helpset := helpset\<rparr>, w3)))))"

text \<open>
  \<^verbatim>\<open>control_to_optionsframe\<close>: \<^verbatim>\<open>ctl["values"]\<close> is set when choices were given.
\<close>

definition control_to_optionsframe ::
  "control_builder \<Rightarrow> string list option \<Rightarrow> sysbrowser option \<Rightarrow> world
     \<Rightarrow> py_error + (nat \<times> control_builder \<times> world)" where
  "control_to_optionsframe self choices sysbrowser w =
     (let values = (\<lambda>ctl w'. case choices of
                              None \<Rightarrow> w'
                            | Some cs \<Rightarrow> if cs \<noteq> [] then configure ctl ''values'' (PStrs cs) w'
                                         else w')
      in if cb_control self = Checkbutton
         then (let (ctl, w1) = new_widget ((mk_widget (cb_control self) (cb_frame self))
                                  \<lparr>w_var := Some (cb_tk_var self)\<rparr>) w
               in Inr (ctl, self, values ctl w1))
         else (case (case sysbrowser of
                       None \<Rightarrow> Inr (self, w)
                     | Some sb \<Rightarrow>
                         (case FileBrowser (cb_tk_var self) (cb_frame self) sb w of
                            Inl e \<Rightarrow> Inl e
                          | Inr (fb, w1) \<Rightarrow> Inr (self\<lparr>cb_filebrowser := Some fb\<rparr>, w1))) of
                 Inl e \<Rightarrow> Inl e
               | Inr (self1, w1) \<Rightarrow>
                   (let (ctl, w2) = new_widget ((mk_widget (cb_control self1) (cb_frame self1))
                                       \<lparr>w_var := Some (cb_tk_var self1)\<rparr>) w1;
                        w3 = cm_bind ctl w2
                    in Inr (ctl, self1, values ctl w3))))"

text \<open>
  \<^verbatim>\<open>control_to_checkframe\<close>: the check button goes into the next subframe of the
  shared container \<^verbatim>\<open>self.chkbtns\<close>; reading \<^verbatim>\<open>subframe\<close> of \<^verbatim>\<open>None\<close> raises
  AttributeError.
\<close>

definition control_to_checkframe :: "control_builder \<Rightarrow> world \<Rightarrow> py_error + (nat \<times> world)" where
  "control_to_checkframe self w =
     (case cb_chkbtns self of
        None \<Rightarrow> Inl AttributeError
      | Some h \<Rightarrow>
          (case subframe_of h w of
             Inl e \<Rightarrow> Inl e
           | Inr (chkframe, w1) \<Rightarrow>
               (let (ctl, w2) = new_widget ((mk_widget (cb_control self) chkframe)
                                    \<lparr>w_var := Some (cb_tk_var self),
                                     w_text := Some (display_title (cb_title self)),
                                     w_name := Name (py_lower (cb_title self))\<rparr>) w1;
                    w3 = Tooltip ctl (cb_helptext self) 200 w2
                in Inr (ctl, pack ctl w3))))"

text \<open>
  \<^verbatim>\<open>build_one_control\<close> in its two halves: the chain of \<^verbatim>\<open>if\<close> and \<^verbatim>\<open>elif\<close>
  that makes the control \<^verbatim>\<open>ctl\<close> for the class chosen, and the statements after it
  that set the width, pack the control and attach the tooltip.
\<close>

definition place_control ::
  "control_builder \<Rightarrow> string list option \<Rightarrow> dtype \<Rightarrow> int option \<Rightarrow> (pyval \<times> pyval) option
     \<Rightarrow> sysbrowser option \<Rightarrow> int \<Rightarrow> world
     \<Rightarrow> py_error + (nat \<times> control_builder \<times> world)" where
  "place_control self choices dtype rounding min_max sysbrowser radio_columns w =
     (if cb_control self = Scale
      then (case slider_control self dtype rounding min_max w of
              Inl e \<Rightarrow> Inl e
            | Inr (ctl, w1) \<Rightarrow> Inr (ctl, self, w1))
      else if cb_control self = Radiobutton
      then radio_control self choices radio_columns w
      else if cb_control self = Checkbutton
      then (case control_to_checkframe self w of
              Inl e \<Rightarrow> Inl e
            | Inr (ctl, w1) \<Rightarrow> Inr (ctl, self, w1))
      else control_to_optionsframe self choices sysbrowser w)"

definition finish_control :: "nat \<Rightarrow> control_builder \<Rightarrow> int option \<Rightarrow> world \<Rightarrow> world" where
  "finish_control ctl self control_width w =
     (let w1 = set_control_width ctl control_width w
      in if cb_control self \<noteq> Checkbutton
         then (let w2 = pack ctl w1
               in if cb_helptext self \<noteq> None \<and> \<not> cb_helpset self
                  then Tooltip ctl (cb_helptext self) 720 w2
                  else w2)
         else w1)"

definition build_one_control ::
  "control_builder \<Rightarrow> string list option \<Rightarrow> dtype \<Rightarrow> int option \<Rightarrow> (pyval \<times> pyval) option
     \<Rightarrow> sysbrowser option \<Rightarrow> int \<Rightarrow> int option \<Rightarrow> world
     \<Rightarrow> py_error + (control_builder \<times> world)" where
  "build_one_control self choices dtype rounding min_max sysbrowser radio_columns control_width w =
     (case place_control self choices dtype rounding min_max sysbrowser radio_columns w of
        Inl e \<Rightarrow> Inl e
      | Inr (ctl, self1, w1) \<Rightarrow> Inr (self1, finish_control ctl self1 control_width w1))"

definition build_control ::
  "control_builder \<Rightarrow> string list option \<Rightarrow> dtype \<Rightarrow> int option \<Rightarrow> (pyval \<times> pyval) option
     \<Rightarrow> sysbrowser option \<Rightarrow> int \<Rightarrow> int option \<Rightarrow> world
     \<Rightarrow> py_error + (control_builder \<times> world)" where
  "build_control self choices dtype rounding min_max sysbrowser radio_columns control_width w =
     (let w1 = (if cb_control self \<noteq> Checkbutton \<and> cb_control self \<noteq> Radiobutton
                then build_control_label self w else w)
      in build_one_control self choices dtype rounding min_max sysbrowser radio_columns
           control_width w1)"

text \<open>
  The arguments of \<^verbatim>\<open>ControlBuilder.__init__\<close> after \<^verbatim>\<open>parent\<close> and
  \<^verbatim>\<open>title\<close>.
\<close>

record builder_args =
  a_dtype :: dtype
  a_default :: pyval
  a_selected_value :: pyval
  a_choices :: "string list option"
  a_is_radio :: bool
  a_rounding :: "int option"
  a_min_max :: "(pyval \<times> pyval) option"
  a_sysbrowser :: "sysbrowser option"
  a_helptext :: "string option"
  a_radio_columns :: int
  a_label_width :: int
  a_checkbuttons_frame :: "nat option"
  a_control_width :: "int option"
  a_blank_nones :: bool

text \<open>\<^verbatim>\<open>ControlBuilder.__init__\<close>.\<close>

definition ControlBuilder ::
  "nat \<Rightarrow> string \<Rightarrow> builder_args \<Rightarrow> world \<Rightarrow> py_error + (control_builder \<times> world)" where
  "ControlBuilder parent title args w =
     (let helptext = format_helptext title (a_helptext args);
          (frame, w1) = control_frame parent w;
          control = set_control (a_dtype args) (a_choices args) (a_is_radio args);
          (tk_var, w2) = set_tk_var (a_default args) (a_dtype args) (a_selected_value args)
                           (a_blank_nones args) w1;
          self = \<lparr>cb_title = title, cb_default = a_default args, cb_helptext = helptext,
                  cb_helpset = False, cb_label_width = a_label_width args,
                  cb_filebrowser = None, cb_frame = frame,
                  cb_chkbtns = a_checkbuttons_frame args, cb_control = control,
                  cb_tk_var = tk_var\<rparr>
      in build_control self (a_choices args) (a_dtype args) (a_rounding args) (a_min_max args)
           (a_sysbrowser args) (a_radio_columns args) (a_control_width args) w2)"

section \<open>Options and the control panel\<close>

text \<open>
  An option descriptor: the dictionary stored under an option's name. The keys the
  panel reads without a fallback are fields; \<^verbatim>\<open>sysbrowser\<close> is read with
  \<^verbatim>\<open>get\<close>, and \<^verbatim>\<open>opts\<close>, \<^verbatim>\<open>selected\<close> and \<^verbatim>\<open>_gui_option\<close> may be missing
  (\<open>None\<close>). \<^verbatim>\<open>selected\<close> and \<^verbatim>\<open>_gui_option\<close> are written by the panel.
\<close>

record option_item =
  o_type :: dtype
  o_default :: pyval
  o_value :: pyval
  o_choices :: "string list option"
  o_gui_radio :: bool
  o_rounding :: "int option"
  o_min_max :: "(pyval \<times> pyval) option"
  o_helptext :: "string option"
  o_group :: "string option"
  o_sysbrowser :: "sysbrowser option"
  o_opts :: "string list option"
  o_selected :: "nat option"
  o_gui_option :: "control_builder option"

text \<open>
  A value of the options mapping: a descriptor, or something that is not a dictionary
  (the text kept under the reserved key \<^verbatim>\<open>helptext\<close>). The mapping itself is the
  list of its items in insertion order.
\<close>

datatype opt_value = Descr option_item | Other pyval

type_synonym options = "(string \<times> opt_value) list"

text \<open>
  The dictionary \<^verbatim>\<open>actions\<close> of \<^verbatim>\<open>set_context_action_option\<close>, as the list of
  its entries in the order of \<^verbatim>\<open>options.values()\<close>. Subscripting a value that is not
  a dictionary raises TypeError, a missing key KeyError, an empty \<^verbatim>\<open>opts\<close>
  IndexError.
\<close>

fun actions_of :: "opt_value list \<Rightarrow> py_error + (string \<times> nat) list" where
  "actions_of [] = Inr []"
| "actions_of (Other v # rest) = Inl TypeError"
| "actions_of (Descr item # rest) =
     (case o_opts item of
        None \<Rightarrow> Inl KeyError
      | Some [] \<Rightarrow> Inl IndexError
      | Some (opt # _) \<Rightarrow>
          (case o_selected item of
             None \<Rightarrow> Inl KeyError
           | Some var \<Rightarrow>
               (case actions_of rest of
                  Inl e \<Rightarrow> Inl e
                | Inr entries \<Rightarrow> Inr ((opt, var) # entries))))"

text \<open>
  What a value of the mapping contributes to \<^verbatim>\<open>actions\<close>: a descriptor with a
  first opt and a selected variable contributes that pair, anything else none.
\<close>

fun action_entry :: "opt_value \<Rightarrow> (string \<times> nat) option" where
  "action_entry (Other v) = None"
| "action_entry (Descr item) =
     (case o_opts item of
        Some (opt # _) \<Rightarrow> (case o_selected item of Some var \<Rightarrow> Some (opt, var) | None \<Rightarrow> None)
      | _ \<Rightarrow> None)"

text \<open>
  \<^verbatim>\<open>FileBrowser.set_context_action_option\<close>. \<^verbatim>\<open>actions[self.action_option]\<close>
  raises KeyError for a name that is no key and for \<^verbatim>\<open>None\<close>; a toolkit variable
  cannot be hashed (TypeError).
\<close>

definition set_context_action_option :: "filebrowser \<Rightarrow> options \<Rightarrow> py_error + filebrowser" where
  "set_context_action_option fb opts =
     (if fb_browser fb \<noteq> [''context''] then Inr fb
      else (case actions_of (map snd opts) of
              Inl e \<Rightarrow> Inl e
            | Inr actions \<Rightarrow>
                (case fb_action_option fb of
                   ActName n \<Rightarrow>
                     (case map_of (rev actions) n of
                        None \<Rightarrow> Inl KeyError
                      | Some var \<Rightarrow> Inr (fb\<lparr>fb_action_option := ActVar var\<rparr>))
                 | ActNone \<Rightarrow> Inl KeyError
                 | ActVar v \<Rightarrow> Inl TypeError)))"

text \<open>\<^verbatim>\<open>class ControlPanel\<close>: the attributes of the object; \<open>cp_self\<close> is its own frame.\<close>

record group_frame =
  gf_frame :: nat
  gf_chkbtns :: nat

record control_panel =
  cp_self :: nat
  cp_options :: options
  cp_label_width :: int
  cp_columns :: int
  cp_radio_columns :: int
  cp_header_text :: "string option"
  cp_group_frames :: "(string \<times> group_frame) list"
  cp_canvas :: nat
  cp_mainframe :: nat
  cp_optsframe :: nat

text \<open>
  The loop of \<^verbatim>\<open>add_info\<close> over \<^verbatim>\<open>enumerate(self.header_text.splitlines())\<close>:
  \<open>info\<close> is the label made last, if any.
\<close>

fun add_info_loop :: "nat \<Rightarrow> (nat \<times> string) list \<Rightarrow> nat option \<times> world \<Rightarrow> nat option \<times> world" where
  "add_info_loop label_frame [] st = st"
| "add_info_loop label_frame ((idx, line) # rest) (info, w) =
     (if line = [] then add_info_loop label_frame rest (info, w)
      else (let style = (if idx = 0 then ''Header.TLabel'' else ''Body.TLabel'');
                (lbl, w1) = new_widget ((mk_widget Label label_frame)
                               \<lparr>w_text := Some line, w_style := Some style\<rparr>) w
            in add_info_loop label_frame rest (Some lbl, pack lbl w1)))"

text \<open>
  \<^verbatim>\<open>add_info\<close>: the name \<^verbatim>\<open>info\<close> is unbound after a loop that made no label.
\<close>

definition add_info :: "string \<Rightarrow> nat \<Rightarrow> world \<Rightarrow> py_error + world" where
  "add_info header_text frame w =
     (let w1 = style_configure ''Body.TLabel''
                 (style_configure ''Header.TLabel'' (style_configure ''White.TFrame'' w));
          (info_frame, w2) = new_widget ((mk_widget Frame frame)\<lparr>w_style := Some ''White.TFrame''\<rparr>) w1;
          w3 = pack info_frame w2;
          (label_frame, w4) = new_widget ((mk_widget Frame info_frame)
                                 \<lparr>w_style := Some ''White.TFrame''\<rparr>) w3;
          w5 = pack label_frame w4;
          lines = py_splitlines header_text;
          (info, w6) = add_info_loop label_frame (zip [0 ..< length lines] lines) (None, w5)
      in case info of
           None \<Rightarrow> Inl UnboundLocalError
         | Some lbl \<Rightarrow> Inr (bind lbl ''<Configure>'' w6))"

text \<open>\<^verbatim>\<open>get_opts_frame\<close>: the main frame and the container of the options.\<close>

definition get_opts_frame ::
  "nat \<Rightarrow> string option \<Rightarrow> int \<Rightarrow> world \<Rightarrow> py_error + (nat \<times> nat \<times> world)" where
  "get_opts_frame canvas header_text columns w =
     (let (mainframe, w1) = new_widget (mk_widget Frame canvas) w
      in case (case header_text of None \<Rightarrow> Inr w1 | Some txt \<Rightarrow> add_info txt mainframe w1) of
           Inl e \<Rightarrow> Inl e
         | Inr w2 \<Rightarrow>
             (let (optsframe, w3) = new_widget (mk_widget Frame mainframe) w2;
                  w4 = pack optsframe w3;
                  (holder, w5) = new_afc optsframe columns w4
              in Inr (mainframe, holder, w5)))"

definition add_scrollbar :: "control_panel \<Rightarrow> world \<Rightarrow> world" where
  "add_scrollbar self w =
     (let (scrollbar, w1) = new_widget ((mk_widget Scrollbar (cp_self self))
                               \<lparr>w_command := Some (YView (cp_canvas self))\<rparr>) w;
          w2 = pack scrollbar w1;
          w3 = configure (cp_canvas self) ''yscrollcommand'' (PInt (int scrollbar)) w2
      in bind (cp_mainframe self) ''<Configure>'' w3)"

definition checkbuttons_frame :: "control_panel \<Rightarrow> nat \<Rightarrow> world \<Rightarrow> nat \<times> world" where
  "checkbuttons_frame self frame w =
     (let (chk_frame, w1) = new_widget ((mk_widget Frame frame)\<lparr>w_name := Name ''chkbuttons''\<rparr>) w
      in new_afc chk_frame (cp_radio_columns self) w1)"

text \<open>
  \<^verbatim>\<open>get_group_frame\<close>: the entry of \<^verbatim>\<open>self.group_frames\<close> for the group, made on
  first use.
\<close>

definition get_group_frame ::
  "control_panel \<Rightarrow> string \<Rightarrow> world \<Rightarrow> py_error + (group_frame \<times> control_panel \<times> world)" where
  "get_group_frame self group0 w =
     (let group = py_lower group0
      in case map_of (cp_group_frames self) group of
           Some gf \<Rightarrow> Inr (gf, self, w)
         | None \<Rightarrow>
             (let is_master = (group = ''_master'')
              in case subframe_of (cp_optsframe self) w of
                   Inl e \<Rightarrow> Inl e
                 | Inr (opts_frame, w1) \<Rightarrow>
                     (let (group_frame, w2) =
                            (if is_master
                             then new_widget ((mk_widget Frame opts_frame)
                                    \<lparr>w_name := Name (py_lower group)\<rparr>) w1
                             else new_widget ((mk_widget LabelFrame opts_frame)
                                    \<lparr>w_name := Name (py_lower group),
                                     w_text := Some (if is_master then [] else py_title group),
                                     w_style := Some ''BlueText.TLabelframe''\<rparr>) w1);
                          w3 = pack group_frame w2;
                          (chk, w4) = checkbuttons_frame self group_frame w3;
                          gf = \<lparr>gf_frame = group_frame, gf_chkbtns = chk\<rparr>
                      in Inr (gf, self\<lparr>cp_group_frames := cp_group_frames self @ [(group, gf)]\<rparr>, w4))))"

text \<open>
  An item of the options mapping before and after the panel was built, in the toolkit
  \<open>w'\<close> the panel left: the key is the same, and under every key but \<^verbatim>\<open>helptext\<close>
  both values are descriptors, the later one with a selected variable that holds the
  initial value for the default and the value of the earlier one.
\<close>

definition option_bound :: "bool \<Rightarrow> world \<Rightarrow> string \<times> opt_value \<Rightarrow> string \<times> opt_value \<Rightarrow> bool" where
  "option_bound blank_nones w' kv kv' =
     (fst kv' = fst kv \<and>
      (if fst kv = ''helptext'' then True
       else (case (snd kv, snd kv') of
               (Descr item, Descr item') \<Rightarrow>
                 (case o_selected item' of
                    None \<Rightarrow> False
                  | Some var \<Rightarrow>
                      var_get var w' = initial_value (o_default item) (o_value item) blank_nones)
             | _ \<Rightarrow> False)))"

text \<open>
  The same with the bookkeeping of an induction over the loop: the selected variable
  was created at or after the variable counter \<open>lo\<close>, and the later descriptor keeps the
  default and the value.
\<close>

definition option_built :: "bool \<Rightarrow> nat \<Rightarrow> world \<Rightarrow> string \<times> opt_value \<Rightarrow> string \<times> opt_value \<Rightarrow> bool" where
  "option_built blank_nones lo w' kv kv' =
     (fst kv' = fst kv \<and>
      (if fst kv = ''helptext'' then snd kv' = snd kv
       else (case (snd kv, snd kv') of
               (Descr item, Descr item') \<Rightarrow>
                 o_default item' = o_default item \<and> o_value item' = o_value item \<and>
                 (case o_selected item' of
                    None \<Rightarrow> False
                  | Some var \<Rightarrow>
                      lo \<le> var \<and> var < next_var w' \<and>
                      vars w' var = initial_value (o_default item) (o_value item) blank_nones)
             | _ \<Rightarrow> False)))"

text \<open>
  An item before and after the second loop of the panel: the same key, and a descriptor
  keeps its default, its value and its selected variable.
\<close>

definition same_binding :: "string \<times> opt_value \<Rightarrow> string \<times> opt_value \<Rightarrow> bool" where
  "same_binding kv kv' =
     (fst kv' = fst kv \<and>
      (if fst kv = ''helptext'' then snd kv' = snd kv
       else (case (snd kv, snd kv') of
               (Descr item, Descr item') \<Rightarrow>
                 o_default item' = o_default item \<and> o_value item' = o_value item \<and>
                 o_selected item' = o_selected item
             | _ \<Rightarrow> False)))"

text \<open>
  The first loop of \<^verbatim>\<open>build_panel\<close> over \<^verbatim>\<open>self.options.items()\<close>: the items
  with \<^verbatim>\<open>selected\<close> and \<^verbatim>\<open>_gui_option\<close> written, the panel and the toolkit.
\<close>

fun build_options ::
  "control_panel \<Rightarrow> int \<Rightarrow> bool \<Rightarrow> options \<Rightarrow> world
     \<Rightarrow> py_error + (options \<times> control_panel \<times> world)" where
  "build_options self radio_columns blank_nones [] w = Inr ([], self, w)"
| "build_options self radio_columns blank_nones ((key, val) # rest) w =
     (if key = ''helptext''
      then (case build_options self radio_columns blank_nones rest w of
              Inl e \<Rightarrow> Inl e
            | Inr (rest1, self1, w1) \<Rightarrow> Inr ((key, val) # rest1, self1, w1))
      else (case val of
              Other v \<Rightarrow> Inl TypeError
            | Descr item \<Rightarrow>
                (let group = (case o_group item of None \<Rightarrow> ''_master'' | Some g \<Rightarrow> g)
                 in case get_group_frame self group w of
                      Inl e \<Rightarrow> Inl e
                    | Inr (gf, self1, w1) \<Rightarrow>
                        (case ControlBuilder (gf_frame gf) key
                                \<lparr>a_dtype = o_type item, a_default = o_default item,
                                 a_selected_value = o_value item, a_choices = o_choices item,
                                 a_is_radio = o_gui_radio item, a_rounding = o_rounding item,
                                 a_min_max = o_min_max item, a_sysbrowser = o_sysbrowser item,
                                 a_helptext = o_helptext item, a_radio_columns = radio_columns,
                                 a_label_width = cp_label_width self1,
                                 a_checkbuttons_frame = Some (gf_chkbtns gf),
                                 a_control_width = None, a_blank_nones = blank_nones\<rparr> w1 of
                           Inl e \<Rightarrow> Inl e
                         | Inr (ctl, w2) \<Rightarrow>
                             (let chkbtns = containers w2 (gf_chkbtns gf);
                                  w3 = (if items chkbtns > 0 then pack (afc_parent chkbtns) w2 else w2);
                                  item1 = item\<lparr>o_selected := Some (cb_tk_var ctl),
                                               o_gui_option := Some ctl\<rparr>
                              in case build_options self1 radio_columns blank_nones rest w3 of
                                   Inl e \<Rightarrow> Inl e
                                 | Inr (rest1, self2, w4) \<Rightarrow>
                                     Inr ((key, Descr item1) # rest1, self2, w4))))))"

text \<open>
  The second loop of \<^verbatim>\<open>build_panel\<close>. \<open>all_opts\<close> is \<^verbatim>\<open>self.options\<close>; the loop
  changes only the file browsers in it, which \<^verbatim>\<open>set_context_action_option\<close> does not
  read.
\<close>

fun resolve_filebrowsers :: "options \<Rightarrow> options \<Rightarrow> py_error + options" where
  "resolve_filebrowsers all_opts [] = Inr []"
| "resolve_filebrowsers all_opts ((key, val) # rest) =
     (if key = ''helptext''
      then (case resolve_filebrowsers all_opts rest of
              Inl e \<Rightarrow> Inl e
            | Inr rest1 \<Rightarrow> Inr ((key, val) # rest1))
      else (case val of
              Other v \<Rightarrow> Inl TypeError
            | Descr item \<Rightarrow>
                (case o_gui_option item of
                   None \<Rightarrow> Inl KeyError
                 | Some ctl \<Rightarrow>
                     (case (case cb_filebrowser ctl of
                              None \<Rightarrow> Inr item
                            | Some fb \<Rightarrow>
                                (case set_context_action_option fb all_opts of
                                   Inl e \<Rightarrow> Inl e
                                 | Inr fb1 \<Rightarrow>
                                     Inr (item\<lparr>o_gui_option :=
                                            Some (ctl\<lparr>cb_filebrowser := Some fb1\<rparr>)\<rparr>))) of
                        Inl e \<Rightarrow> Inl e
                      | Inr item1 \<Rightarrow>
                          (case resolve_filebrowsers all_opts rest of
                             Inl e \<Rightarrow> Inl e
                           | Inr rest1 \<Rightarrow> Inr ((key, Descr item1) # rest1))))))"

definition build_panel ::
  "control_panel \<Rightarrow> int \<Rightarrow> bool \<Rightarrow> world \<Rightarrow> py_error + (control_panel \<times> world)" where
  "build_panel self radio_columns blank_nones w =
     (let w1 = add_scrollbar self w;
          w2 = bind (cp_canvas self) ''<Configure>'' w1
      in case build_options self radio_columns blank_nones (cp_options self) w2 of
           Inl e \<Rightarrow> Inl e
         | Inr (opts1, self1, w3) \<Rightarrow>
             (case resolve_filebrowsers opts1 opts1 of
                Inl e \<Rightarrow> Inl e
              | Inr opts2 \<Rightarrow> Inr (self1\<lparr>cp_options := opts2\<rparr>, w3)))"

text \<open>
  \<^verbatim>\<open>ControlPanel.__init__(parent, options, label_width, columns, radio_columns,
  header_text, blank_nones)\<close>.
\<close>

definition ControlPanel ::
  "nat \<Rightarrow> options \<Rightarrow> int \<Rightarrow> int \<Rightarrow> int \<Rightarrow> string option \<Rightarrow> bool \<Rightarrow> world
     \<Rightarrow> py_error + (control_panel \<times> world)" where
  "ControlPanel parent opts label_width columns radio_columns header_text blank_nones w =
     (let w1 = style_configure ''BlueText.TLabelframe.Label'' w;
          (panel, w2) = new_widget (mk_widget Frame parent) w1;
          w3 = pack panel w2;
          (canvas, w4) = new_widget (mk_widget Canvas panel) w3;
          w5 = pack canvas w4
      in case get_opts_frame canvas header_text columns w5 of
           Inl e \<Rightarrow> Inl e
         | Inr (mainframe, optsframe, w6) \<Rightarrow>
             (let w7 = configure canvas ''create_window'' (PInt (int mainframe)) w6;
                  self = \<lparr>cp_self = panel, cp_options = opts, cp_label_width = label_width,
                          cp_columns = columns, cp_radio_columns = radio_columns,
                          cp_header_text = header_text, cp_group_frames = [],
                          cp_canvas = canvas, cp_mainframe = mainframe,
                          cp_optsframe = optsframe\<rparr>
              in build_panel self radio_columns blank_nones w7))"

section \<open>Properties of the builtins\<close>

lemma foldl_min_first:
  "\<exists>i < length (x # xs). (x # xs) ! i = foldl (\<lambda>best y. if f y < f best then y else best) x xs
     \<and> (\<forall>j < i. f (foldl (\<lambda>best y. if f y < f best then y else best) x xs) < f ((x # xs) ! j))
     \<and> (\<forall>y \<in> set (x # xs). f (foldl (\<lambda>best y. if f y < f best then y else best) x xs) \<le> (f y :: int))"
proof (induction xs rule: rev_induct)
  case Nil
  show ?case by simp
next
  case (snoc z zs)
  let ?g = "\<lambda>best y. if f y < f best then y else best"
  let ?r = "foldl ?g x zs"
  from snoc obtain i where i: "i < length (x # zs)" "(x # zs) ! i = ?r"
    "\<forall>j < i. f ?r < f ((x # zs) ! j)" "\<forall>y \<in> set (x # zs). f ?r \<le> f y"
    by blast
  show ?case
  proof (cases "f z < f ?r")
    case True
    have "(x # zs @ [z]) ! length (x # zs) = z"
      by (metis append_Cons nth_append_length)
    moreover have "\<forall>j < length (x # zs). f z < f ((x # zs @ [z]) ! j)"
    proof (intro allI impI)
      fix j assume j: "j < length (x # zs)"
      then have "(x # zs @ [z]) ! j = (x # zs) ! j"
        by (metis append_Cons nth_append)
      moreover have "(x # zs) ! j \<in> set (x # zs)" using j nth_mem by blast
      ultimately show "f z < f ((x # zs @ [z]) ! j)" using i(4) True by fastforce
    qed
    moreover have "\<forall>y \<in> set (x # zs @ [z]). f z \<le> f y"
      using i(4) True by fastforce
    ultimately show ?thesis using True
      by (intro exI[of _ "length (x # zs)"]) simp
  next
    case False
    have "(x # zs @ [z]) ! i = ?r" using i(1,2)
      by (metis append_Cons nth_append)
    moreover have "\<forall>j < i. f ?r < f ((x # zs @ [z]) ! j)"
    proof (intro allI impI)
      fix j assume "j < i"
      then have "(x # zs @ [z]) ! j = (x # zs) ! j" using i(1)
        by (metis append_Cons nth_append less_trans)
      then show "f ?r < f ((x # zs @ [z]) ! j)" using i(3) \<open>j < i\<close> by simp
    qed
    moreover have "\<forall>y \<in> set (x # zs @ [z]). f ?r \<le> f y"
      using i(4) False by fastforce
    ultimately show ?thesis using False i(1)
      by (intro exI[of _ i]) simp
  qed
qed

lemma le_div_iff_int:
  assumes "0 < (s::int)"
  shows "(i \<le> m div s) = (i * s \<le> m)"
proof
  assume "i \<le> m div s"
  then have "i * s \<le> (m div s) * s" using assms by (simp add: mult_right_mono)
  also have "\<dots> \<le> m" using assms
    by (metis add.commute le_add_same_cancel2 mult.commute mult_div_mod_eq pos_mod_sign)
  finally show "i * s \<le> m" .
next
  assume "i * s \<le> m"
  then have "(i * s) div s \<le> m div s" using assms by (rule zdiv_mono1)
  then show "i \<le> m div s" using assms by simp
qed

lemma range_len_pos:
  assumes "0 < step"
  shows "i < range_len start stop step \<longleftrightarrow> start + int i * step < stop"
proof (cases "start < stop")
  case True
  have "i < nat ((stop - start - 1) div step + 1) \<longleftrightarrow> int i \<le> (stop - start - 1) div step"
    by linarith
  also have "\<dots> \<longleftrightarrow> int i * step \<le> stop - start - 1"
    using assms by (rule le_div_iff_int)
  finally show ?thesis using True assms by (simp add: range_len_def) linarith
next
  case False
  have "0 \<le> int i * step" using assms by simp
  then have "\<not> start + int i * step < stop" using False by linarith
  moreover have "range_len start stop step = 0" using False assms by (simp add: range_len_def)
  ultimately show ?thesis by simp
qed

lemma set_range_items_pos:
  assumes "0 < step"
  shows "set (range_items start stop step) = {x. \<exists>k. x = start + int k * step \<and> x < stop}"
  using assms by (auto simp: range_items_def range_len_pos)

lemma range_items_nth:
  "i < range_len start stop step \<Longrightarrow> range_items start stop step ! i = start + int i * step"
  by (simp add: range_items_def)

lemma length_range_items: "length (range_items start stop step) = range_len start stop step"
  by (simp add: range_items_def)

lemma range_items_mono:
  assumes "0 < step" "i \<le> j" "j < range_len start stop step"
  shows "range_items start stop step ! i \<le> range_items start stop step ! j"
  using assms by (simp add: range_items_nth mult_right_mono)


lemma py_min_key_first:
  assumes "py_min_key f xs = Inr r"
  shows "\<exists>i < length xs. xs ! i = r \<and> (\<forall>j < i. f r < f (xs ! j)) \<and> (\<forall>y \<in> set xs. f r \<le> f y)"
proof (cases xs)
  case Nil
  with assms show ?thesis by simp
next
  case (Cons x zs)
  with assms have r: "r = foldl (\<lambda>best y. if f y < f best then y else best) x zs" by simp
  show ?thesis unfolding Cons r by (rule foldl_min_first)
qed


lemma range_items_0_110_10:
  "range_items 0 110 10 = [0, 10, 20, 30, 40, 50, 60, 70, 80, 90, 100]"
  by code_simp


section \<open>Slider rounding snaps the integer part to the step lattice\<close>

lemma slider_example_34:
  "set_slider_rounding rnd 34 var TInt (Some 10) (Some (PInt 0, PInt 100)) w
     = Inr (var_set var (PInt 30) w)"
  by (simp add: set_slider_rounding_def slider_steps_def py_range_def range_items_0_110_10
        py_int_of_float_def)

lemma slider_example_35:
  "set_slider_rounding rnd 35 var TInt (Some 10) (Some (PInt 0, PInt 100)) w
     = Inr (var_set var (PInt 30) w)"
  by (simp add: set_slider_rounding_def slider_steps_def py_range_def range_items_0_110_10
        py_int_of_float_def)

lemma slider_example_half:
  "set_slider_rounding rnd (71 / 2) var TInt (Some 10) (Some (PInt 0, PInt 100)) w
     = Inr (var_set var (PInt 30) w)"
  by (simp add: set_slider_rounding_def slider_steps_def py_range_def range_items_0_110_10
        py_int_of_float_def)

lemma slider_example_110:
  "set_slider_rounding rnd 110 var TInt (Some 10) (Some (PInt 0, PInt 100)) w
     = Inr (var_set var (PInt 100) w)"
  by (simp add: set_slider_rounding_def slider_steps_def py_range_def range_items_0_110_10
        py_int_of_float_def)

text \<open>
  Claim C3, as amended. For an integer slider with a positive step and a lattice that is
  not empty, a value change stores the lattice point closest to the integer part of
  the raw value (\<^verbatim>\<open>int(float(value))\<close>, truncated toward zero); the lattice is
  \<open>min, min + step, min + 2 step, ...\<close> as far as the points stay below \<open>max + step\<close>;
  of two lattice points at the same distance the lower one is stored. With
  \<open>min = 0\<close>, \<open>max = 100\<close> and \<open>step = 10\<close> the raw values 34 and 35 both give 30.
\<close>

theorem set_slider_rounding_snaps:
  assumes "d_type \<noteq> TFloat" "0 < step" "lo < hi + step"
  shows "(\<exists>r k. set_slider_rounding rnd val var d_type (Some step) (Some (PInt lo, PInt hi)) w
             = Inr (var_set var (PInt r) w)
           \<and> r = lo + int k * step \<and> r < hi + step
           \<and> (\<forall>j. lo + int j * step < hi + step \<longrightarrow>
                 \<bar>r - py_int_of_float val\<bar> \<le> \<bar>lo + int j * step - py_int_of_float val\<bar>
                 \<and> (\<bar>lo + int j * step - py_int_of_float val\<bar> = \<bar>r - py_int_of_float val\<bar>
                      \<longrightarrow> r \<le> lo + int j * step)))
       \<and> set_slider_rounding rnd 34 var TInt (Some 10) (Some (PInt 0, PInt 100)) w
             = Inr (var_set var (PInt 30) w)
       \<and> set_slider_rounding rnd 35 var TInt (Some 10) (Some (PInt 0, PInt 100)) w
             = Inr (var_set var (PInt 30) w)"
proof -
  let ?t = "py_int_of_float val"
  let ?f = "\<lambda>x. \<bar>x - ?t\<bar>"
  let ?xs = "range_items lo (hi + step) step"
  have len: "0 < range_len lo (hi + step) step"
    using assms(2,3) range_len_pos[of step 0 lo "hi + step"] by simp
  then have "?xs \<noteq> []" using length_range_items[of lo "hi + step" step] by auto
  then obtain r where r: "py_min_key ?f ?xs = Inr r"
    by (cases ?xs) auto
  from py_min_key_first[OF r] obtain i where i: "i < length ?xs" "?xs ! i = r"
    "\<forall>j < i. ?f r < ?f (?xs ! j)" "\<forall>y \<in> set ?xs. ?f r \<le> ?f y"
    by blast
  have il: "i < range_len lo (hi + step) step" using i(1) by (simp add: length_range_items)
  have req: "r = lo + int i * step" using i(2) il by (simp add: range_items_nth)
  have rlt: "r < hi + step" using il req assms(2) by (simp add: range_len_pos)
  have run: "set_slider_rounding rnd val var d_type (Some step) (Some (PInt lo, PInt hi)) w
               = Inr (var_set var (PInt r) w)"
    using assms(1,2) r by (simp add: set_slider_rounding_def slider_steps_def py_range_def)
  have best: "\<bar>r - ?t\<bar> \<le> \<bar>lo + int j * step - ?t\<bar>
      \<and> (\<bar>lo + int j * step - ?t\<bar> = \<bar>r - ?t\<bar> \<longrightarrow> r \<le> lo + int j * step)"
    if j: "lo + int j * step < hi + step" for j
  proof -
    have jl: "j < range_len lo (hi + step) step" using j assms(2) by (simp add: range_len_pos)
    then have nth: "?xs ! j = lo + int j * step" by (simp add: range_items_nth)
    have mem: "?xs ! j \<in> set ?xs" using jl by (simp add: length_range_items)
    have le: "\<bar>r - ?t\<bar> \<le> \<bar>lo + int j * step - ?t\<bar>" using i(4) mem nth by auto
    have "r \<le> lo + int j * step" if eq: "\<bar>lo + int j * step - ?t\<bar> = \<bar>r - ?t\<bar>"
    proof (rule ccontr)
      assume "\<not> r \<le> lo + int j * step"
      then have "int j * step < int i * step" using req by simp
      then have "j < i" using assms(2) by (simp add: mult_less_cancel_right)
      then have "?f r < ?f (?xs ! j)" using i(3) by blast
      then show False using eq nth by simp
    qed
    then show ?thesis using le by blast
  qed
  have general: "\<exists>r k. set_slider_rounding rnd val var d_type (Some step) (Some (PInt lo, PInt hi)) w
             = Inr (var_set var (PInt r) w)
           \<and> r = lo + int k * step \<and> r < hi + step
           \<and> (\<forall>j. lo + int j * step < hi + step \<longrightarrow>
                 \<bar>r - ?t\<bar> \<le> \<bar>lo + int j * step - ?t\<bar>
                 \<and> (\<bar>lo + int j * step - ?t\<bar> = \<bar>r - ?t\<bar> \<longrightarrow> r \<le> lo + int j * step))"
    using run req rlt best by blast
  show ?thesis using general slider_example_34 slider_example_35 by simp
qed

text \<open>
  The theorem of C3 at a slider from 0 to 100 in steps of 10 and the raw value 47: the
  value stored is a lattice point below 110 that no lattice point beats.
\<close>

theorem set_slider_rounding_snaps_witness:
  "TInt \<noteq> TFloat \<and> (0::int) < 10 \<and> (0::int) < 100 + 10
   \<and> (\<exists>r k. set_slider_rounding (\<lambda>x n. PNone) 47 0 TInt (Some 10) (Some (PInt 0, PInt 100)) (tk_root [])
             = Inr (var_set 0 (PInt r) (tk_root []))
           \<and> r = 0 + int k * 10 \<and> r < 100 + 10
           \<and> (\<forall>j. 0 + int j * 10 < (100::int) + 10 \<longrightarrow>
                 \<bar>r - py_int_of_float 47\<bar> \<le> \<bar>0 + int j * 10 - py_int_of_float 47\<bar>))"
proof -
  have h1: "TInt \<noteq> TFloat" by simp
  have h2: "(0::int) < 10" by simp
  have h3: "(0::int) < 100 + 10" by simp
  from set_slider_rounding_snaps[OF h1 h2 h3, of "\<lambda>x n. PNone" 47 0 "tk_root []"]
  show ?thesis using h1 h2 h3 by blast
qed

text \<open>
  Claim C3 as stated fails on the code. With \<open>min = 0\<close>, \<open>max = 100\<close>, \<open>step = 10\<close> and
  the raw value 35.5 the slider stores 30, although the lattice point 40 is closer to the
  raw value; and the raw value 110, which is \<open>max + step\<close> itself, is stored as 100: the
  lattice stops below \<open>max + step\<close>.
\<close>

theorem set_slider_rounding_raw_counterexample:
  "set_slider_rounding (\<lambda>x n. PNone) (71 / 2) 0 TInt (Some 10) (Some (PInt 0, PInt 100)) (tk_root [])
     = Inr (var_set 0 (PInt 30) (tk_root []))
   \<and> 40 \<in> set (range_items 0 (100 + 10) 10)
   \<and> \<bar>40 - 71 / 2\<bar> < \<bar>30 - (71 / 2 :: rat)\<bar>
   \<and> set_slider_rounding (\<lambda>x n. PNone) 110 0 TInt (Some 10) (Some (PInt 0, PInt 100)) (tk_root [])
     = Inr (var_set 0 (PInt 100) (tk_root []))"
  by (simp add: slider_example_half slider_example_110 range_items_0_110_10)

section \<open>Help text formatting\<close>

text \<open>
  Claim C4, as amended. Help text that begins with \<^verbatim>\<open>R|\<close> is formatted by dropping
  the marker, replacing every line break followed by \<^verbatim>\<open>L|\<close> by a line break and
  \<^verbatim>\<open>" - "\<close>, doubling every line break, capitalizing each piece between the
  separators \<^verbatim>\<open>". "\<close> (first character upper case, the others lower case) and
  putting the title and \<^verbatim>\<open>" - "\<close> in front. In particular
  \<^verbatim>\<open>"R|first.\nL|second item"\<close> becomes the title, \<^verbatim>\<open>" - First."\<close>, an empty line
  and the bullet line \<^verbatim>\<open>" - second item"\<close>: the bullet keeps its lower case and gets
  no full stop.
\<close>

theorem format_helptext_reflow:
  "format_helptext title (Some (''R|'' @ h)) =
     Some (title @ '' - '' @
       py_join ''. '' (map py_capitalize (py_split ''. ''
         (py_replace ''\<newline>'' ''\<newline>\<newline>'' (py_replace ''\<newline>L|'' ''\<newline> - '' h)))))
   \<and> format_helptext title (Some ''R|first.\<newline>L|second item'')
       = Some (title @ '' - First.\<newline>\<newline> - second item'')"
proof (intro conjI)
  show "format_helptext title (Some (''R|'' @ h)) =
     Some (title @ '' - '' @
       py_join ''. '' (map py_capitalize (py_split ''. ''
         (py_replace ''\<newline>'' ''\<newline>\<newline>'' (py_replace ''\<newline>L|'' ''\<newline> - '' h)))))"
    by (simp add: format_helptext_def py_startswith_def)
  show "format_helptext title (Some ''R|first.\<newline>L|second item'')
       = Some (title @ '' - First.\<newline>\<newline> - second item'')"
    by code_simp
qed

text \<open>
  Claim C4 as stated fails on the code: for the title \<^verbatim>\<open>opt\<close> the lines of the
  formatted text are \<^verbatim>\<open>"opt - First."\<close>, an empty line and \<^verbatim>\<open>" - second item"\<close>,
  and the last line is not the bullet \<^verbatim>\<open>"- Second item."\<close> of the claim, with or
  without the leading blank.
\<close>

theorem format_helptext_bullet_counterexample:
  "format_helptext ''opt'' (Some ''R|first.\<newline>L|second item'')
     = Some ''opt - First.\<newline>\<newline> - second item''
   \<and> py_splitlines ''opt - First.\<newline>\<newline> - second item''
     = [''opt - First.'', [], '' - second item'']
   \<and> '' - second item'' \<noteq> '' - Second item.''
   \<and> '' - second item'' \<noteq> ''- Second item.''"
  by code_simp

section \<open>The columns of the auto-fill container\<close>

lemma range_items_0_step1: "0 \<le> C \<Longrightarrow> range_items 0 C 1 = map int [0 ..< nat C]"
  by (auto simp: range_items_def range_len_def)

lemma range_items_0_neg: "C \<le> 0 \<Longrightarrow> range_items 0 C 1 = []"
  by (auto simp: range_items_def range_len_def)

lemma set_subframes_loop_many:
  assumes "columns \<noteq> 1"
  shows "set_subframes_loop parent columns idxs (subs, n, w) =
     (subs @ [length (widgets w) ..< length (widgets w) + length idxs],
      n + length idxs,
      w\<lparr>widgets := widgets w @ map (\<lambda>idx. (mk_widget Frame parent)\<lparr>w_name := SubName parent idx\<rparr>) idxs,
        packed := packed w @ [length (widgets w) ..< length (widgets w) + length idxs]\<rparr>)"
proof (induction idxs arbitrary: subs n w)
  case Nil
  show ?case by simp
next
  case (Cons idx rest)
  have up: "[length (widgets w) ..< Suc (length (widgets w) + length rest)]
      = length (widgets w) # [Suc (length (widgets w)) ..< Suc (length (widgets w) + length rest)]"
    by (simp add: upt_conv_Cons del: upt_Suc)
  show ?case using assms
    by (simp add: new_widget_def pack_def Cons.IH up del: upt_Suc)
qed

lemma set_subframes_one:
  "set_subframes parent 1 w = ([parent], 1, w)"
  by (simp add: set_subframes_def range_items_def range_len_def)

lemma set_subframes_many:
  assumes "1 < C"
  shows "set_subframes parent C w =
     ([length (widgets w) ..< length (widgets w) + nat C], nat C,
      w\<lparr>widgets := widgets w @ map (\<lambda>idx. (mk_widget Frame parent)\<lparr>w_name := SubName parent idx\<rparr>)
                                    (map int [0 ..< nat C]),
        packed := packed w @ [length (widgets w) ..< length (widgets w) + nat C]\<rparr>)"
  using assms by (simp add: set_subframes_def range_items_0_step1 set_subframes_loop_many)

lemma subframe_step:
  assumes "afc_columns a = int (length (afc_subframes a))" "afc_idx a < length (afc_subframes a)"
  shows "subframe a = Inr (afc_subframes a ! afc_idx a,
            a\<lparr>afc_idx := Suc (afc_idx a) mod length (afc_subframes a)\<rparr>)"
proof -
  have "Suc (afc_idx a) mod length (afc_subframes a)
        = (if Suc (afc_idx a) = length (afc_subframes a) then 0 else Suc (afc_idx a))"
    using assms(2) by (simp add: mod_Suc)
  then show ?thesis using assms by (simp add: subframe_def) 
qed

lemma subframe_requests_round_robin:
  assumes "afc_columns a = int (length (afc_subframes a))" "afc_idx a < length (afc_subframes a)"
  shows "subframe_requests n a =
     Inr (map (\<lambda>k. afc_subframes a ! ((afc_idx a + k) mod length (afc_subframes a))) [0 ..< n],
          a\<lparr>afc_idx := (afc_idx a + n) mod length (afc_subframes a)\<rparr>)"
  using assms
proof (induction n arbitrary: a)
  case 0
  then show ?case by simp
next
  case (Suc n)
  let ?L = "length (afc_subframes a)"
  let ?a1 = "a\<lparr>afc_idx := Suc (afc_idx a) mod ?L\<rparr>"
  have pos: "0 < ?L" using Suc.prems(2) by auto
  have step: "subframe a = Inr (afc_subframes a ! afc_idx a, ?a1)"
    using Suc.prems by (rule subframe_step)
  have a1: "afc_columns ?a1 = int (length (afc_subframes ?a1))" "afc_idx ?a1 < length (afc_subframes ?a1)"
    using Suc.prems pos by simp_all
  have ih: "subframe_requests n ?a1 =
     Inr (map (\<lambda>k. afc_subframes a ! ((Suc (afc_idx a) mod ?L + k) mod ?L)) [0 ..< n],
          a\<lparr>afc_idx := (Suc (afc_idx a) mod ?L + n) mod ?L\<rparr>)"
    using Suc.IH[OF a1] by simp
  have m: "(Suc (afc_idx a) mod ?L + k) mod ?L = (afc_idx a + Suc k) mod ?L" for k
    by (simp add: mod_add_left_eq)
  have shift: "map (\<lambda>k. afc_subframes a ! ((afc_idx a + k) mod ?L)) [0 ..< Suc n]
     = afc_subframes a ! afc_idx a # map (\<lambda>k. afc_subframes a ! ((afc_idx a + Suc k) mod ?L)) [0 ..< n]"
  proof -
    have "[0 ..< Suc n] = 0 # map Suc [0 ..< n]"
      by (simp add: upt_conv_Cons map_Suc_upt del: upt_Suc)
    then show ?thesis using Suc.prems(2) by (simp add: comp_def del: upt_Suc)
  qed
  show ?case unfolding shift using step ih by (simp add: m del: upt_Suc)
qed


lemma AutoFillContainer_one:
  "AutoFillContainer parent 1 w =
     (\<lparr>afc_parent = parent, afc_columns = 1, afc_items = 1, afc_idx = 0, afc_subframes = [parent]\<rparr>, w)"
  by (simp add: AutoFillContainer_def set_subframes_one)

lemma AutoFillContainer_many:
  assumes "1 < C"
  shows "AutoFillContainer parent C w =
     (\<lparr>afc_parent = parent, afc_columns = C, afc_items = nat C, afc_idx = 0,
       afc_subframes = [length (widgets w) ..< length (widgets w) + nat C]\<rparr>,
      w\<lparr>widgets := widgets w @ map (\<lambda>idx. (mk_widget Frame parent)\<lparr>w_name := SubName parent idx\<rparr>)
                                    (map int [0 ..< nat C]),
        packed := packed w @ [length (widgets w) ..< length (widgets w) + nat C]\<rparr>)"
  using assms by (simp add: AutoFillContainer_def set_subframes_many)

lemma AutoFillContainer_shape:
  assumes "1 \<le> C" "AutoFillContainer parent C w = (a, w')"
  shows "afc_columns a = int (length (afc_subframes a))" "afc_idx a = 0"
    "length (afc_subframes a) = nat C" "distinct (afc_subframes a)"
proof -
  consider "C = 1" | "1 < C" using assms(1) by linarith
  then have "afc_columns a = int (length (afc_subframes a)) \<and> afc_idx a = 0
     \<and> length (afc_subframes a) = nat C \<and> distinct (afc_subframes a)"
  proof cases
    case 1
    then show ?thesis using assms(2) by (auto simp: AutoFillContainer_one)
  next
    case 2
    then show ?thesis using assms(2) by (auto simp: AutoFillContainer_many)
  qed
  then show "afc_columns a = int (length (afc_subframes a))" "afc_idx a = 0"
    "length (afc_subframes a) = nat C" "distinct (afc_subframes a)" by simp_all
qed

text \<open>
  Claim C2. For a container constructed with \<open>C \<ge> 1\<close> columns, successive reads of
  \<^verbatim>\<open>subframe\<close> go round the columns: the reads number 1, 2, 3, ... return the
  columns 0, 1, 2, ... taken modulo \<open>C\<close>. The columns are \<open>C\<close> distinct regions, so the
  first \<open>C\<close> reads return each column exactly once, in order, and read \<open>C + 1\<close> returns
  column 0 again.
\<close>

theorem subframe_round_robin:
  assumes "1 \<le> C" "AutoFillContainer parent C w = (a, w')"
  shows "length (afc_subframes a) = nat C \<and> distinct (afc_subframes a)
     \<and> (\<forall>n. \<exists>a'. subframe_requests n a
                    = Inr (map (\<lambda>k. afc_subframes a ! (k mod nat C)) [0 ..< n], a'))
     \<and> (\<exists>a'. subframe_requests (nat C) a = Inr (afc_subframes a, a'))
     \<and> (\<exists>a'. subframe_requests (Suc (nat C)) a = Inr (afc_subframes a @ [afc_subframes a ! 0], a'))"
proof -
  note sh = AutoFillContainer_shape[OF assms]
  have pos: "0 < nat C" using assms(1) by simp
  have idx: "afc_idx a < length (afc_subframes a)" using sh(2,3) pos by simp
  have rr: "subframe_requests n a
      = Inr (map (\<lambda>k. afc_subframes a ! (k mod nat C)) [0 ..< n], a\<lparr>afc_idx := n mod nat C\<rparr>)" for n
    using subframe_requests_round_robin[OF sh(1) idx, of n] sh(2,3) by simp
  have first: "map (\<lambda>k. afc_subframes a ! (k mod nat C)) [0 ..< nat C] = afc_subframes a"
    using sh(3) by (intro nth_equalityI) simp_all
  have "map (\<lambda>k. afc_subframes a ! (k mod nat C)) [0 ..< Suc (nat C)]
      = map (\<lambda>k. afc_subframes a ! (k mod nat C)) [0 ..< nat C] @ [afc_subframes a ! (nat C mod nat C)]"
    by simp
  then have wrap: "map (\<lambda>k. afc_subframes a ! (k mod nat C)) [0 ..< Suc (nat C)]
      = afc_subframes a @ [afc_subframes a ! 0]"
    using first by simp
  show ?thesis using sh(3,4) rr first wrap by metis
qed

text \<open>
  The theorem of C2 for three columns under the root window of a fresh toolkit: the
  columns are the widgets 1, 2 and 3, and four reads return 1, 2, 3, 1.
\<close>

theorem subframe_round_robin_witness:
  "(1::int) \<le> 3
   \<and> AutoFillContainer 0 3 (tk_root []) = (fst (AutoFillContainer 0 3 (tk_root [])), snd (AutoFillContainer 0 3 (tk_root [])))
   \<and> afc_subframes (fst (AutoFillContainer 0 3 (tk_root []))) = [1, 2, 3]
   \<and> (\<exists>a'. subframe_requests 4 (fst (AutoFillContainer 0 3 (tk_root []))) = Inr ([1, 2, 3, 1], a'))"
proof -
  have h1: "(1::int) \<le> 3" by simp
  have h2: "AutoFillContainer 0 3 (tk_root [])
      = (fst (AutoFillContainer 0 3 (tk_root [])), snd (AutoFillContainer 0 3 (tk_root [])))" by simp
  have subs: "afc_subframes (fst (AutoFillContainer 0 3 (tk_root []))) = [1, 2, 3]"
    by (simp add: AutoFillContainer_many tk_root_def fresh_world_def new_widget_def upt_rec)
  from subframe_round_robin[OF h1 h2]
  have "\<exists>a'. subframe_requests (Suc (nat 3)) (fst (AutoFillContainer 0 3 (tk_root [])))
      = Inr (afc_subframes (fst (AutoFillContainer 0 3 (tk_root [])))
               @ [afc_subframes (fst (AutoFillContainer 0 3 (tk_root []))) ! 0], a')"
    by blast
  then have "\<exists>a'. subframe_requests 4 (fst (AutoFillContainer 0 3 (tk_root []))) = Inr ([1, 2, 3, 1], a')"
    unfolding subs by (simp add: eval_nat_numeral)
  then show ?thesis using h1 h2 subs by blast
qed

text \<open>
  Claim C8. A container constructed with one column has the parent itself as its only
  column, creates no widget, and a read of \<^verbatim>\<open>subframe\<close> returns the parent. A
  container constructed with \<open>C > 1\<close> columns under an existing parent creates exactly
  \<open>C\<close> new frames, children of the parent and different from it and from each other,
  and leaves the widgets that existed as they were.
\<close>

theorem autofill_columns:
  "AutoFillContainer parent 1 w =
     (\<lparr>afc_parent = parent, afc_columns = 1, afc_items = 1, afc_idx = 0, afc_subframes = [parent]\<rparr>, w)
   \<and> (\<exists>a'. subframe (fst (AutoFillContainer parent 1 w)) = Inr (parent, a'))
   \<and> (1 < C \<and> parent < length (widgets w) \<longrightarrow>
        (case AutoFillContainer parent C w of
           (a, w') \<Rightarrow>
             afc_subframes a = [length (widgets w) ..< length (widgets w) + nat C]
             \<and> length (afc_subframes a) = nat C \<and> distinct (afc_subframes a)
             \<and> length (widgets w') = length (widgets w) + nat C
             \<and> take (length (widgets w)) (widgets w') = widgets w
             \<and> (\<forall>f \<in> set (afc_subframes a).
                   f \<noteq> parent \<and> w_class (widgets w' ! f) = Frame
                   \<and> w_master (widgets w' ! f) = parent)))"
proof (intro conjI impI)
  show "AutoFillContainer parent 1 w =
     (\<lparr>afc_parent = parent, afc_columns = 1, afc_items = 1, afc_idx = 0, afc_subframes = [parent]\<rparr>, w)"
    by (rule AutoFillContainer_one)
  show "\<exists>a'. subframe (fst (AutoFillContainer parent 1 w)) = Inr (parent, a')"
    by (simp add: AutoFillContainer_one subframe_def)
next
  assume h: "1 < C \<and> parent < length (widgets w)"
  then have C: "1 < C" and p: "parent < length (widgets w)" by simp_all
  have nth: "(widgets w @ map (\<lambda>idx. (mk_widget Frame parent)\<lparr>w_name := SubName parent idx\<rparr>)
                (map int [0 ..< nat C])) ! f
      = (mk_widget Frame parent)\<lparr>w_name := SubName parent (int (f - length (widgets w)))\<rparr>"
    if "length (widgets w) \<le> f" "f < length (widgets w) + nat C" for f
    using that by (simp add: nth_append)
  show "case AutoFillContainer parent C w of
           (a, w') \<Rightarrow>
             afc_subframes a = [length (widgets w) ..< length (widgets w) + nat C]
             \<and> length (afc_subframes a) = nat C \<and> distinct (afc_subframes a)
             \<and> length (widgets w') = length (widgets w) + nat C
             \<and> take (length (widgets w)) (widgets w') = widgets w
             \<and> (\<forall>f \<in> set (afc_subframes a).
                   f \<noteq> parent \<and> w_class (widgets w' ! f) = Frame
                   \<and> w_master (widgets w' ! f) = parent)"
    using p nth by (simp add: AutoFillContainer_many[OF C] mk_widget_def)
qed

text \<open>
  The theorem of C8 for four columns under the root window of a fresh toolkit: the
  columns are the new widgets 1 to 4, none of them the parent 0.
\<close>

theorem autofill_columns_witness:
  "(1::int) < 4 \<and> (0::nat) < length (widgets (tk_root []))
   \<and> afc_subframes (fst (AutoFillContainer 0 4 (tk_root []))) = [1, 2, 3, 4]
   \<and> length (widgets (snd (AutoFillContainer 0 4 (tk_root [])))) = 5
   \<and> fst (AutoFillContainer 0 1 (tk_root []))
       = \<lparr>afc_parent = 0, afc_columns = 1, afc_items = 1, afc_idx = 0, afc_subframes = [0]\<rparr>"
proof -
  have h: "(1::int) < 4 \<and> (0::nat) < length (widgets (tk_root []))"
    by (simp add: tk_root_def fresh_world_def new_widget_def)
  have len: "length (widgets (tk_root [])) = 1"
    by (simp add: tk_root_def fresh_world_def new_widget_def)
  note t = autofill_columns[of 0 "tk_root []" 4]
  have one: "AutoFillContainer 0 1 (tk_root []) =
      (\<lparr>afc_parent = 0, afc_columns = 1, afc_items = 1, afc_idx = 0, afc_subframes = [0]\<rparr>, tk_root [])"
    by (rule t[THEN conjunct1])
  note many = t[THEN conjunct2, THEN conjunct2, THEN mp, OF h]
  have m1: "afc_subframes (fst (AutoFillContainer 0 4 (tk_root []))) = [1 ..< 1 + nat 4]"
    using many unfolding len by (simp only: case_prod_beta)
  have m2: "length (widgets (snd (AutoFillContainer 0 4 (tk_root [])))) = 1 + nat 4"
    using many unfolding len by (simp only: case_prod_beta)
  have u: "[1 ..< 1 + nat 4] = [1, 2, 3, 4]"
    by (simp add: upt_rec)
  show ?thesis using h one m1 m2 u by simp
qed

section \<open>File dialogs\<close>

text \<open>
  Claim C5. In each of the dialog routines (folder, single file, several files, save,
  context) a result of the file handler that is empty or \<^verbatim>\<open>None\<close> leaves the
  toolkit, and so the bound variable, as it was; a result that is not empty is written
  to the bound variable by the folder, single-file, save and context routines. The
  context routine reads the variable cached in \<^verbatim>\<open>self.action_option\<close>; the same
  holds for a click on the button of each kind.
\<close>

theorem cancelled_dialog_keeps_variable:
  "(\<not> truthy (fh (fh_plain ''dir'' ft)) \<longrightarrow> ask_folder fh var ft w = Inr w)
   \<and> (\<not> truthy (fh (fh_plain ''filename'' ft)) \<longrightarrow> ask_load fh var ft w = Inr w)
   \<and> (\<not> truthy (fh (fh_plain ''filename_multi'' ft)) \<longrightarrow> ask_load_multi fh var ft w = Inr w)
   \<and> (\<not> truthy (fh (fh_plain ''savefilename'' ft)) \<longrightarrow> ask_save fh var ft w = Inr w)
   \<and> (fb_action_option fb = ActVar v
        \<and> \<not> truthy (fh \<lparr>fh_handletype = ''context'', fh_filetypes = ft,
                           fh_command = fb_command fb, fh_action = Some (var_get v w),
                           fh_variable = fb_destination fb\<rparr>)
        \<longrightarrow> ask_context fb fh var ft w = Inr w)
   \<and> (truthy (fh (fh_plain ''dir'' ft))
        \<longrightarrow> ask_folder fh var ft w = Inr (var_set var (fh (fh_plain ''dir'' ft)) w))
   \<and> (truthy (fh (fh_plain ''filename'' ft))
        \<longrightarrow> ask_load fh var ft w = Inr (var_set var (fh (fh_plain ''filename'' ft)) w))
   \<and> (truthy (fh (fh_plain ''savefilename'' ft))
        \<longrightarrow> ask_save fh var ft w = Inr (var_set var (fh (fh_plain ''savefilename'' ft)) w))
   \<and> (fb_action_option fb = ActVar v
        \<and> truthy (fh \<lparr>fh_handletype = ''context'', fh_filetypes = ft,
                         fh_command = fb_command fb, fh_action = Some (var_get v w),
                         fh_variable = fb_destination fb\<rparr>)
        \<longrightarrow> ask_context fb fh var ft w
            = Inr (var_set var (fh \<lparr>fh_handletype = ''context'', fh_filetypes = ft,
                                      fh_command = fb_command fb, fh_action = Some (var_get v w),
                                      fh_variable = fb_destination fb\<rparr>) w))
   \<and> ((\<forall>req. \<not> truthy (fh req))
        \<and> kind \<in> set [''folder'', ''load'', ''load_multi'', ''save'']
        \<longrightarrow> click fb fh kind w = Inr w)
   \<and> ((\<forall>req. \<not> truthy (fh req)) \<and> fb_action_option fb = ActVar v
        \<longrightarrow> click fb fh ''context'' w = Inr w)"
  by (auto simp: ask_folder_def ask_load_def ask_load_multi_def ask_save_def ask_context_def
        click_def Let_def)

text \<open>
  The theorem of C5 for a user who cancels every dialog: the variable 0, holding
  \<^verbatim>\<open>"old"\<close>, is unchanged by a click on each of the five buttons.
\<close>

theorem cancelled_dialog_keeps_variable_witness:
  "(\<forall>req. \<not> truthy ((\<lambda>r. PNone) (req :: fh_request)))
   \<and> click \<lparr>fb_tk_var = 0, fb_frame = 0, fb_browser = [''context''], fb_filetypes = ''default'',
             fb_action_option = ActVar 1, fb_command = None, fb_destination = None\<rparr>
          (\<lambda>r. PNone) ''context'' (var_set 0 (PStr ''old'') (tk_root []))
       = Inr (var_set 0 (PStr ''old'') (tk_root []))
   \<and> click \<lparr>fb_tk_var = 0, fb_frame = 0, fb_browser = [''context''], fb_filetypes = ''default'',
             fb_action_option = ActVar 1, fb_command = None, fb_destination = None\<rparr>
          (\<lambda>r. PNone) ''folder'' (var_set 0 (PStr ''old'') (tk_root []))
       = Inr (var_set 0 (PStr ''old'') (tk_root []))"
proof -
  let ?fb = "\<lparr>fb_tk_var = 0, fb_frame = 0, fb_browser = [''context''], fb_filetypes = ''default'',
             fb_action_option = ActVar 1, fb_command = None, fb_destination = None\<rparr>"
  let ?w = "var_set 0 (PStr ''old'') (tk_root [])"
  have h: "\<forall>req. \<not> truthy ((\<lambda>r. PNone) (req :: fh_request))" by simp
  note t = cancelled_dialog_keeps_variable[where fh = "\<lambda>r. PNone" and w = ?w and fb = ?fb
             and v = 1 and kind = "''folder''"]
  have c: "click ?fb (\<lambda>r. PNone) ''context'' ?w = Inr ?w"
    by (rule t[THEN conjunct2, THEN conjunct2, THEN conjunct2,
          THEN conjunct2, THEN conjunct2, THEN conjunct2, THEN conjunct2, THEN conjunct2,
          THEN conjunct2, THEN conjunct2, THEN mp]) simp
  have f: "click ?fb (\<lambda>r. PNone) ''folder'' ?w = Inr ?w"
    by (rule t[THEN conjunct2, THEN conjunct2, THEN conjunct2,
          THEN conjunct2, THEN conjunct2, THEN conjunct2, THEN conjunct2, THEN conjunct2,
          THEN conjunct2, THEN conjunct1, THEN mp]) simp
  show ?thesis using h c f by blast
qed

text \<open>
  Claim C6. The dialog for several files writes a list of paths that is not empty to the
  bound variable as one string: each path between double quotes, the quoted paths
  joined by single blanks. The list \<^verbatim>\<open>["a b.txt", "c.txt"]\<close> is written as
  \<^verbatim>\<open>"a b.txt" "c.txt"\<close>.
\<close>

theorem ask_load_multi_quotes_and_joins:
  "(fh (fh_plain ''filename_multi'' ft) = PStrs fs \<and> fs \<noteq> []
      \<longrightarrow> ask_load_multi fh var ft w
          = Inr (var_set var (PStr (py_join '' '' (map (\<lambda>f. [CHR 0x22] @ f @ [CHR 0x22]) fs))) w))
   \<and> (fh (fh_plain ''filename_multi'' ft) = PStrs [''a b.txt'', ''c.txt'']
      \<longrightarrow> ask_load_multi fh var ft w
          = Inr (var_set var (PStr ([CHR 0x22] @ ''a b.txt'' @ [CHR 0x22] @ '' ''
                                     @ [CHR 0x22] @ ''c.txt'' @ [CHR 0x22])) w))"
proof -
  have q: "quoted = (\<lambda>f. [CHR 0x22] @ f @ [CHR 0x22])"
    by (rule ext) (simp add: quoted_def)
  show ?thesis by (simp add: ask_load_multi_def q)
qed

text \<open>
  The theorem of C6 for a handler that returns the two paths of the claim: after a
  click on the button for several files the variable 0 holds the quoted, joined string.
\<close>

theorem ask_load_multi_quotes_and_joins_witness:
  "(\<lambda>r. PStrs [''a b.txt'', ''c.txt'']) (fh_plain ''filename_multi'' ''default'')
     = PStrs [''a b.txt'', ''c.txt'']
   \<and> [''a b.txt'', ''c.txt''] \<noteq> []
   \<and> ask_load_multi (\<lambda>r. PStrs [''a b.txt'', ''c.txt'']) 0 ''default'' (tk_root [])
     = Inr (var_set 0 (PStr ([CHR 0x22] @ ''a b.txt'' @ [CHR 0x22] @ '' ''
                               @ [CHR 0x22] @ ''c.txt'' @ [CHR 0x22])) (tk_root []))
   \<and> length ([CHR 0x22] @ ''a b.txt'' @ [CHR 0x22] @ '' '' @ [CHR 0x22] @ ''c.txt'' @ [CHR 0x22]) = 17"
proof -
  have h: "(\<lambda>r. PStrs [''a b.txt'', ''c.txt'']) (fh_plain ''filename_multi'' ''default'')
     = PStrs [''a b.txt'', ''c.txt'']" by simp
  from ask_load_multi_quotes_and_joins[of "\<lambda>r. PStrs [''a b.txt'', ''c.txt'']" "''default''"
         "[''a b.txt'', ''c.txt'']" 0 "tk_root []", THEN conjunct2, THEN mp, OF h]
  show ?thesis by simp
qed

section \<open>The context action option\<close>

lemma actions_of_entries:
  assumes "\<forall>v \<in> set vs. action_entry v \<noteq> None"
  shows "actions_of vs = Inr (map (\<lambda>v. the (action_entry v)) vs)"
  using assms
proof (induction vs)
  case Nil
  show ?case by simp
next
  case (Cons v vs)
  then have ih: "actions_of vs = Inr (map (\<lambda>v. the (action_entry v)) vs)" by simp
  from Cons.prems have ne: "action_entry v \<noteq> None" by simp
  show ?case
  proof (cases v)
    case (Other x)
    with ne show ?thesis by simp
  next
    case (Descr item)
    with ne ih show ?thesis
      by (auto split: option.splits list.splits)
  qed
qed

lemma map_of_rev_last:
  assumes "\<forall>e \<in> set after. fst e \<noteq> n"
  shows "map_of (rev (before @ (n, x) # after)) n = Some x"
proof -
  have "map_of (rev after) n = None"
    using assms by (auto simp: map_of_eq_None_iff image_iff)
  then show ?thesis by (simp add: map_add_def)
qed

text \<open>
  Claim C7, as amended. \<^verbatim>\<open>set_context_action_option\<close> changes nothing unless the
  list of dialog kinds is exactly \<^verbatim>\<open>["context"]\<close>. When it applies and every value of
  the options mapping is a descriptor with a first opt and a selected variable, it
  replaces the name in \<^verbatim>\<open>self.action_option\<close> by the selected variable of the option
  whose first opt (\<^verbatim>\<open>opts[0]\<close>) is that name (the last such option of the mapping); a
  later \<^verbatim>\<open>ask_context\<close> passes the value that this variable holds at the time of the
  click to the file handler. What the routine does for a mapping with a value that is
  no such descriptor is left open here.
\<close>

theorem set_context_action_option_caches:
  "(fb_browser fb \<noteq> [''context''] \<longrightarrow> set_context_action_option fb opts = Inr fb)
   \<and> (fb_browser fb = [''context''] \<and> fb_action_option fb = ActName n
        \<and> opts = before @ (key, Descr item) # after
        \<and> action_entry (Descr item) = Some (n, var)
        \<and> (\<forall>v \<in> set (map snd opts). action_entry v \<noteq> None)
        \<and> (\<forall>v \<in> set (map snd after). fst (the (action_entry v)) \<noteq> n)
      \<longrightarrow> set_context_action_option fb opts = Inr (fb\<lparr>fb_action_option := ActVar var\<rparr>)
          \<and> ask_context (fb\<lparr>fb_action_option := ActVar var\<rparr>) fh filepath ft w
            = (if truthy (fh \<lparr>fh_handletype = ''context'', fh_filetypes = ft,
                               fh_command = fb_command fb, fh_action = Some (var_get var w),
                               fh_variable = fb_destination fb\<rparr>)
               then Inr (var_set filepath
                      (fh \<lparr>fh_handletype = ''context'', fh_filetypes = ft,
                            fh_command = fb_command fb, fh_action = Some (var_get var w),
                            fh_variable = fb_destination fb\<rparr>) w)
               else Inr w))"
proof (intro conjI impI)
  assume "fb_browser fb \<noteq> [''context'']"
  then show "set_context_action_option fb opts = Inr fb"
    by (simp add: set_context_action_option_def)
next
  assume h: "fb_browser fb = [''context''] \<and> fb_action_option fb = ActName n
        \<and> opts = before @ (key, Descr item) # after
        \<and> action_entry (Descr item) = Some (n, var)
        \<and> (\<forall>v \<in> set (map snd opts). action_entry v \<noteq> None)
        \<and> (\<forall>v \<in> set (map snd after). fst (the (action_entry v)) \<noteq> n)"
  let ?e = "\<lambda>v. the (action_entry v)"
  from h have acts: "actions_of (map snd opts) = Inr (map ?e (map snd opts))"
    using actions_of_entries by blast
  from h have split: "map ?e (map snd opts)
      = map ?e (map snd before) @ (n, var) # map ?e (map snd after)"
    by simp
  from h have "\<forall>e \<in> set (map ?e (map snd after)). fst e \<noteq> n" by auto
  then have look: "map_of (rev (map ?e (map snd opts))) n = Some var"
    unfolding split by (rule map_of_rev_last)
  show "set_context_action_option fb opts = Inr (fb\<lparr>fb_action_option := ActVar var\<rparr>)"
    using h acts look by (simp add: set_context_action_option_def)
next
  show "ask_context (fb\<lparr>fb_action_option := ActVar var\<rparr>) fh filepath ft w
            = (if truthy (fh \<lparr>fh_handletype = ''context'', fh_filetypes = ft,
                               fh_command = fb_command fb, fh_action = Some (var_get var w),
                               fh_variable = fb_destination fb\<rparr>)
               then Inr (var_set filepath
                      (fh \<lparr>fh_handletype = ''context'', fh_filetypes = ft,
                            fh_command = fb_command fb, fh_action = Some (var_get var w),
                            fh_variable = fb_destination fb\<rparr>) w)
               else Inr w)"
    by (simp add: ask_context_def Let_def)
qed


text \<open>
  The theorem of C7 for a mapping of two options with the first opts \<^verbatim>\<open>-A\<close> and
  \<^verbatim>\<open>-i\<close> and the selected variables 3 and 4, and a context browser configured with
  the action option \<^verbatim>\<open>-A\<close>: the variable 3 is cached.
\<close>

theorem set_context_action_option_caches_witness:
  "set_context_action_option
     \<lparr>fb_tk_var = 4, fb_frame = 0, fb_browser = [''context''], fb_filetypes = ''default'',
      fb_action_option = ActName ''-A'', fb_command = Some ''effmpeg'', fb_destination = Some ''input''\<rparr>
     [(''action'', Descr \<lparr>o_type = TStr, o_default = PStr ''extract'', o_value = PNone,
         o_choices = None, o_gui_radio = False, o_rounding = None, o_min_max = None,
         o_helptext = None, o_group = None, o_sysbrowser = None, o_opts = Some [''-A'', ''--action''],
         o_selected = Some 3, o_gui_option = None\<rparr>),
      (''input'', Descr \<lparr>o_type = TStr, o_default = PNone, o_value = PNone,
         o_choices = None, o_gui_radio = False, o_rounding = None, o_min_max = None,
         o_helptext = None, o_group = None, o_sysbrowser = None, o_opts = Some [''-i''],
         o_selected = Some 4, o_gui_option = None\<rparr>)]
   = Inr \<lparr>fb_tk_var = 4, fb_frame = 0, fb_browser = [''context''], fb_filetypes = ''default'',
          fb_action_option = ActVar 3, fb_command = Some ''effmpeg'', fb_destination = Some ''input''\<rparr>"
proof -
  let ?fb = "\<lparr>fb_tk_var = 4, fb_frame = 0, fb_browser = [''context''], fb_filetypes = ''default'',
      fb_action_option = ActName ''-A'', fb_command = Some ''effmpeg'', fb_destination = Some ''input''\<rparr>"
  let ?a = "\<lparr>o_type = TStr, o_default = PStr ''extract'', o_value = PNone,
         o_choices = None, o_gui_radio = False, o_rounding = None, o_min_max = None,
         o_helptext = None, o_group = None, o_sysbrowser = None, o_opts = Some [''-A'', ''--action''],
         o_selected = Some 3, o_gui_option = None\<rparr>"
  let ?i = "\<lparr>o_type = TStr, o_default = PNone, o_value = PNone,
         o_choices = None, o_gui_radio = False, o_rounding = None, o_min_max = None,
         o_helptext = None, o_group = None, o_sysbrowser = None, o_opts = Some [''-i''],
         o_selected = Some 4, o_gui_option = None\<rparr>"
  let ?opts = "[(''action'', Descr ?a), (''input'', Descr ?i)]"
  have h: "fb_browser ?fb = [''context''] \<and> fb_action_option ?fb = ActName ''-A''
        \<and> ?opts = [] @ (''action'', Descr ?a) # [(''input'', Descr ?i)]
        \<and> action_entry (Descr ?a) = Some (''-A'', 3)
        \<and> (\<forall>v \<in> set (map snd ?opts). action_entry v \<noteq> None)
        \<and> (\<forall>v \<in> set (map snd [(''input'', Descr ?i)]). fst (the (action_entry v)) \<noteq> ''-A'')"
    by simp
  from set_context_action_option_caches[of ?fb ?opts "''-A''" "[]" "''action''" ?a
         "[(''input'', Descr ?i)]" 3, THEN conjunct2, THEN mp, OF h, THEN conjunct1]
  show ?thesis by simp
qed

text \<open>
  Claim C7 as stated fails on the code. The dictionary \<^verbatim>\<open>actions\<close> is keyed by the
  first opt of each option, not by the option's name in the mapping: for the mapping
  with the one option \<^verbatim>\<open>action\<close> (first opt \<^verbatim>\<open>-A\<close>, selected variable 3) a
  context browser configured with the action option \<^verbatim>\<open>action\<close> raises KeyError and
  caches nothing. And the routine reads every value of the mapping: with the text that
  a panel keeps under the reserved key \<^verbatim>\<open>helptext\<close> in the mapping, a context browser
  configured with \<^verbatim>\<open>-A\<close> raises TypeError.
\<close>

theorem set_context_action_option_counterexample:
  "set_context_action_option
     \<lparr>fb_tk_var = 4, fb_frame = 0, fb_browser = [''context''], fb_filetypes = ''default'',
      fb_action_option = ActName ''action'', fb_command = None, fb_destination = None\<rparr>
     [(''action'', Descr \<lparr>o_type = TStr, o_default = PStr ''extract'', o_value = PNone,
         o_choices = None, o_gui_radio = False, o_rounding = None, o_min_max = None,
         o_helptext = None, o_group = None, o_sysbrowser = None, o_opts = Some [''-A''],
         o_selected = Some 3, o_gui_option = None\<rparr>)]
   = Inl KeyError
   \<and> set_context_action_option
     \<lparr>fb_tk_var = 4, fb_frame = 0, fb_browser = [''context''], fb_filetypes = ''default'',
      fb_action_option = ActName ''-A'', fb_command = None, fb_destination = None\<rparr>
     [(''helptext'', Other (PStr ''Options of the section'')),
      (''action'', Descr \<lparr>o_type = TStr, o_default = PStr ''extract'', o_value = PNone,
         o_choices = None, o_gui_radio = False, o_rounding = None, o_min_max = None,
         o_helptext = None, o_group = None, o_sysbrowser = None, o_opts = Some [''-A''],
         o_selected = Some 3, o_gui_option = None\<rparr>)]
   = Inl TypeError"
  by (simp add: set_context_action_option_def)

section \<open>What building a control leaves alone\<close>

lemma same_cells_refl: "same_cells w w"
  by (simp add: same_cells_def)

lemma same_cells_trans: "same_cells w w1 \<Longrightarrow> same_cells w1 w2 \<Longrightarrow> same_cells w w2"
  by (simp add: same_cells_def)

lemma same_cells_steps:
  "same_cells w (pack i w)" "same_cells w (Tooltip i txt n w)" "same_cells w (cm_bind i w)"
  "same_cells w (configure i k v w)" "same_cells w (bind i ev w)"
  "same_cells w (style_configure nm w)" "same_cells w (snd (new_widget wd w))"
  by (simp_all add: same_cells_def pack_def Tooltip_def cm_bind_def configure_def bind_def
        style_configure_def new_widget_def)

lemma containers_steps:
  "containers (pack i w) = containers w" "containers (Tooltip i txt n w) = containers w"
  "containers (cm_bind i w) = containers w" "containers (configure i k v w) = containers w"
  "containers (bind i ev w) = containers w" "containers (style_configure nm w) = containers w"
  "containers (snd (new_widget wd w)) = containers w"
  by (simp_all add: pack_def Tooltip_def cm_bind_def configure_def bind_def
        style_configure_def new_widget_def)

lemma set_subframes_loop_cells:
  "same_cells w (snd (snd (set_subframes_loop parent columns idxs (subs, n, w))))
   \<and> containers (snd (snd (set_subframes_loop parent columns idxs (subs, n, w)))) = containers w"
proof (induction idxs arbitrary: subs n w)
  case Nil
  show ?case by (simp add: same_cells_refl)
next
  case (Cons idx rest)
  show ?case
  proof (cases "columns = 1")
    case True
    then show ?thesis using Cons.IH by simp
  next
    case False
    let ?w2 = "pack (fst (new_widget ((mk_widget Frame parent)\<lparr>w_name := SubName parent idx\<rparr>) w))
                 (snd (new_widget ((mk_widget Frame parent)\<lparr>w_name := SubName parent idx\<rparr>) w))"
    have a: "same_cells w ?w2" "containers ?w2 = containers w"
      by (simp_all add: same_cells_def pack_def new_widget_def)
    have step: "set_subframes_loop parent columns (idx # rest) (subs, n, w)
        = set_subframes_loop parent columns rest
            (subs @ [fst (new_widget ((mk_widget Frame parent)\<lparr>w_name := SubName parent idx\<rparr>) w)],
             Suc n, ?w2)"
      using False by (simp add: case_prod_beta Let_def)
    show ?thesis unfolding step
      using Cons.IH[where w = ?w2] a by (simp add: same_cells_def)
  qed
qed

lemma AutoFillContainer_cells:
  "same_cells w (snd (AutoFillContainer parent columns w))
   \<and> containers (snd (AutoFillContainer parent columns w)) = containers w"
  using set_subframes_loop_cells[of w parent columns "range_items 0 columns 1" "[]" 0]
  by (simp add: AutoFillContainer_def set_subframes_def case_prod_beta)

lemma radio_loop_cells:
  assumes "radio_loop self columns intro helpitems choices (a, hs, w) = Inr (a', hs', w')"
  shows "same_cells w w' \<and> containers w' = containers w"
  using assms
proof (induction choices arbitrary: a hs w)
  case Nil
  then show ?case by (simp add: same_cells_refl)
next
  case (Cons choice rest)
  from Cons.prems have c0: "columns \<noteq> 0" by (auto split: if_splits)
  from Cons.prems c0 obtain frame holder1 where sf: "subframe a = Inr (frame, holder1)"
    by (auto split: sum.splits)
  let ?nw = "new_widget ((mk_widget Radiobutton frame)
                \<lparr>w_text := Some (py_title choice), w_value := Some choice,
                 w_var := Some (cb_tk_var self)\<rparr>) w"
  let ?hs1 = "case helpitems_get helpitems (py_lower choice) of None \<Rightarrow> hs | Some item \<Rightarrow> True"
  let ?w2 = "case helpitems_get helpitems (py_lower choice) of
               None \<Rightarrow> snd ?nw
             | Some item \<Rightarrow> Tooltip (fst ?nw)
                 (Some (intro @ ''\<newline>\<newline> - ''
                    @ py_join ''. '' (map py_capitalize (py_split ''. '' (py_capitalize item))))) 400 (snd ?nw)"
  let ?w3 = "pack (fst ?nw) ?w2"
  have rec: "radio_loop self columns intro helpitems rest (holder1, ?hs1, ?w3) = Inr (a', hs', w')"
    using Cons.prems c0 sf by (simp add: case_prod_beta Let_def split: option.splits)
  have pre: "same_cells w ?w3 \<and> containers ?w3 = containers w"
    by (simp add: same_cells_def pack_def Tooltip_def new_widget_def split: option.splits)
  from Cons.IH[OF rec] pre show ?case by (simp add: same_cells_def)
qed

lemma radio_control_cells:
  assumes "radio_control self choices columns w = Inr (ctl, self', w')"
  shows "same_cells w w' \<and> containers w' = containers w
     \<and> cb_tk_var self' = cb_tk_var self \<and> cb_helptext self' = cb_helptext self
     \<and> cb_control self' = cb_control self"
proof -
  from assms obtain helptext where ht: "cb_helptext self = Some helptext"
    by (auto simp: radio_control_def split: option.splits)
  let ?all = "py_splitlines helptext"
  from assms ht obtain helpitems where hi: "helpitems_of ?all = Inr helpitems"
    by (auto simp: radio_control_def Let_def split: sum.splits)
  from assms ht hi obtain cs where cs: "choices = Some cs"
    by (auto simp: radio_control_def Let_def case_prod_beta split: option.splits)
  let ?nw = "new_widget ((mk_widget LabelFrame (cb_frame self))
               \<lparr>w_text := Some (display_title (cb_title self)),
                w_style := Some ''BlueText.TLabelframe''\<rparr>) w"
  let ?afc = "AutoFillContainer (fst ?nw) columns (snd ?nw)"
  let ?intro = "case ?all of [] \<Rightarrow> [] | first # _ \<Rightarrow> first"
  from assms ht hi cs obtain holder1 helpset where
    loop: "radio_loop self columns ?intro helpitems cs (fst ?afc, cb_helpset self, snd ?afc)
             = Inr (holder1, helpset, w')"
    and self': "self' = self\<lparr>cb_helpset := helpset\<rparr>"
    by (auto simp: radio_control_def Let_def case_prod_beta split: sum.splits)
  have a: "same_cells w (snd ?nw) \<and> containers (snd ?nw) = containers w"
    by (simp add: same_cells_def new_widget_def)
  have b: "same_cells (snd ?nw) (snd ?afc) \<and> containers (snd ?afc) = containers (snd ?nw)"
    by (rule AutoFillContainer_cells)
  from radio_loop_cells[OF loop] a b self' show ?thesis
    by (simp add: same_cells_def)
qed

lemma sum_case_Inl_iff:
  "(case x of Inl err \<Rightarrow> Inl err | Inr v \<Rightarrow> Inr (f v)) = Inl e \<longleftrightarrow> x = Inl e"
  by (cases x) auto

lemma sum_case_Inl_iff':
  "(case x of Inl err \<Rightarrow> Inl err | Inr (a, b) \<Rightarrow> Inr (a, c, b)) = Inl e \<longleftrightarrow> x = Inl e"
  by (cases x) auto

lemma add_browser_buttons_cells:
  assumes "add_browser_buttons fb bs w = Inr w'"
  shows "same_cells w w' \<and> containers w' = containers w"
  using assms
proof (induction bs arbitrary: w)
  case Nil
  then show ?case by (simp add: same_cells_refl)
next
  case (Cons b bs)
  from Cons.prems have ok: "b \<in> set (icons w)" "b \<in> set ask_kinds"
    by (auto split: if_splits)
  from Cons.prems ok obtain tip where tip: "map_of fb_helptext b = Some tip"
    by (auto simp: case_prod_beta Let_def split: option.splits)
  let ?nw = "new_widget ((mk_widget Button (fb_frame fb))\<lparr>w_command := Some (AskCmd b)\<rparr>) w"
  let ?w3 = "Tooltip (fst ?nw) (Some tip) 200 (pack (fst ?nw) (snd ?nw))"
  have rec: "add_browser_buttons fb bs ?w3 = Inr w'"
    using Cons.prems ok tip by (simp add: case_prod_beta Let_def)
  have pre: "same_cells w ?w3 \<and> containers ?w3 = containers w"
    by (simp add: same_cells_def pack_def Tooltip_def new_widget_def)
  from Cons.IH[OF rec] pre show ?case by (simp add: same_cells_def)
qed

lemma add_browser_buttons_error:
  assumes "icons w1 = icons w2"
  shows "add_browser_buttons fb1 bs w1 = Inl e \<longleftrightarrow> add_browser_buttons fb2 bs w2 = Inl e"
  using assms
proof (induction bs arbitrary: w1 w2)
  case Nil
  show ?case by simp
next
  case (Cons b bs)
  let ?n1 = "new_widget ((mk_widget Button (fb_frame fb1))\<lparr>w_command := Some (AskCmd b)\<rparr>) w1"
  let ?n2 = "new_widget ((mk_widget Button (fb_frame fb2))\<lparr>w_command := Some (AskCmd b)\<rparr>) w2"
  have ic: "icons (Tooltip (fst ?n1) t 200 (pack (fst ?n1) (snd ?n1)))
      = icons (Tooltip (fst ?n2) t 200 (pack (fst ?n2) (snd ?n2)))" for t
    using Cons.prems by (simp add: pack_def Tooltip_def new_widget_def)
  show ?case using Cons.prems Cons.IH[OF ic]
    by (simp add: case_prod_beta Let_def split: option.splits)
qed

lemma FileBrowser_cells:
  assumes "FileBrowser tk_var frame sb w = Inr (fb, w')"
  shows "same_cells w w' \<and> containers w' = containers w"
  using assms add_browser_buttons_cells
  by (auto simp: FileBrowser_def Let_def split: sum.splits)

lemma FileBrowser_error:
  assumes "icons w1 = icons w2"
  shows "FileBrowser v1 f1 sb w1 = Inl e \<longleftrightarrow> FileBrowser v2 f2 sb w2 = Inl e"
proof -
  let ?fb1 = "\<lparr>fb_tk_var = v1, fb_frame = f1, fb_browser = sb_browser sb,
                fb_filetypes = sb_filetypes sb,
                fb_action_option = (case sb_action_option sb of None \<Rightarrow> ActNone | Some n \<Rightarrow> ActName n),
                fb_command = sb_command sb, fb_destination = sb_destination sb\<rparr>"
  let ?fb2 = "\<lparr>fb_tk_var = v2, fb_frame = f2, fb_browser = sb_browser sb,
                fb_filetypes = sb_filetypes sb,
                fb_action_option = (case sb_action_option sb of None \<Rightarrow> ActNone | Some n \<Rightarrow> ActName n),
                fb_command = sb_command sb, fb_destination = sb_destination sb\<rparr>"
  have "add_browser_buttons ?fb1 (sb_browser sb) w1 = Inl e
      \<longleftrightarrow> add_browser_buttons ?fb2 (sb_browser sb) w2 = Inl e"
    using assms by (rule add_browser_buttons_error)
  then show ?thesis
    by (simp add: FileBrowser_def Let_def sum_case_Inl_iff)
qed

lemma control_to_optionsframe_cells:
  assumes "control_to_optionsframe self choices sb w = Inr (ctl, self', w')"
  shows "same_cells w w' \<and> containers w' = containers w
     \<and> cb_tk_var self' = cb_tk_var self \<and> cb_helptext self' = cb_helptext self
     \<and> cb_control self' = cb_control self \<and> cb_helpset self' = cb_helpset self"
proof (cases "cb_control self = Checkbutton")
  case True
  with assms show ?thesis
    by (auto simp: control_to_optionsframe_def Let_def case_prod_beta same_cells_def
          new_widget_def configure_def split: option.splits)
next
  case False
  show ?thesis
  proof (cases sb)
    case None
    with assms False show ?thesis
      by (auto simp: control_to_optionsframe_def Let_def case_prod_beta same_cells_def
            new_widget_def configure_def cm_bind_def split: option.splits)
  next
    case (Some s)
    with assms False obtain fb w1 where
      fb: "FileBrowser (cb_tk_var self) (cb_frame self) s w = Inr (fb, w1)"
      by (auto simp: control_to_optionsframe_def Let_def split: sum.splits)
    from FileBrowser_cells[OF fb] have c1: "same_cells w w1" "containers w1 = containers w"
      by simp_all
    from assms False Some fb have
      "same_cells w1 w' \<and> containers w' = containers w1
       \<and> cb_tk_var self' = cb_tk_var self \<and> cb_helptext self' = cb_helptext self
       \<and> cb_control self' = cb_control self \<and> cb_helpset self' = cb_helpset self"
      by (auto simp: control_to_optionsframe_def Let_def case_prod_beta same_cells_def
            new_widget_def configure_def cm_bind_def split: option.splits)
    with c1 show ?thesis by (simp add: same_cells_def)
  qed
qed

lemma control_to_optionsframe_error:
  assumes "icons w1 = icons w2" "cb_control self1 = cb_control self2"
  shows "control_to_optionsframe self1 choices sb w1 = Inl e
     \<longleftrightarrow> control_to_optionsframe self2 choices sb w2 = Inl e"
proof (cases "cb_control self2 = Checkbutton")
  case True
  with assms show ?thesis
    by (simp add: control_to_optionsframe_def Let_def case_prod_beta)
next
  case False
  show ?thesis
  proof (cases sb)
    case None
    with assms False show ?thesis
      by (simp add: control_to_optionsframe_def Let_def case_prod_beta)
  next
    case (Some s)
    have "FileBrowser (cb_tk_var self1) (cb_frame self1) s w1 = Inl e
       \<longleftrightarrow> FileBrowser (cb_tk_var self2) (cb_frame self2) s w2 = Inl e"
      using assms(1) by (rule FileBrowser_error)
    with assms False Some show ?thesis
      by (auto simp: control_to_optionsframe_def Let_def case_prod_beta split: sum.splits)
  qed
qed

lemma subframe_of_cells:
  assumes "subframe_of h w = Inr (frame, w')"
  shows "same_cells w w'"
  using assms by (auto simp: subframe_of_def same_cells_def split: sum.splits)

lemma control_to_checkframe_cells:
  assumes "control_to_checkframe self w = Inr (ctl, w')"
  shows "same_cells w w'"
proof -
  from assms obtain h where h: "cb_chkbtns self = Some h"
    by (auto simp: control_to_checkframe_def split: option.splits)
  from assms h obtain chkframe w1 where sf: "subframe_of h w = Inr (chkframe, w1)"
    by (auto simp: control_to_checkframe_def split: sum.splits)
  from assms h sf have "same_cells w1 w'"
    by (auto simp: control_to_checkframe_def Let_def case_prod_beta same_cells_def
          new_widget_def pack_def Tooltip_def)
  with subframe_of_cells[OF sf] show ?thesis by (simp add: same_cells_def)
qed

lemma control_to_checkframe_error:
  assumes "containers w1 = containers w2" "cb_chkbtns self1 = cb_chkbtns self2"
  shows "control_to_checkframe self1 w1 = Inl e \<longleftrightarrow> control_to_checkframe self2 w2 = Inl e"
  using assms
  by (auto simp: control_to_checkframe_def subframe_of_def Let_def case_prod_beta
        split: option.splits sum.splits)

lemma slider_control_cells:
  assumes "slider_control self dtype rounding min_max w = Inr (ctl, w')"
  shows "same_cells w w'"
  using assms
  by (auto simp: slider_control_def Let_def case_prod_beta same_cells_def new_widget_def
        pack_def cm_bind_def configure_def split: option.splits)

lemma slider_control_error:
  "slider_control self dtype rounding min_max w = Inl e \<longleftrightarrow> min_max = None \<and> e = TypeError"
  by (auto simp: slider_control_def Let_def case_prod_beta split: option.splits)

lemma build_one_control_error_iff:
  "build_one_control self ch dt r mm sb rc cw w = Inl e
     \<longleftrightarrow> place_control self ch dt r mm sb rc w = Inl e"
  by (cases "place_control self ch dt r mm sb rc w") (auto simp: build_one_control_def)

lemma finish_control_cells: "same_cells w (finish_control ctl self cw w)"
  by (simp add: finish_control_def Let_def same_cells_def set_control_width_def configure_def
        pack_def Tooltip_def split: option.splits)

lemma place_control_cells:
  assumes "place_control self ch dt r mm sb rc w = Inr (ctl, self', w')"
  shows "same_cells w w' \<and> cb_tk_var self' = cb_tk_var self"
proof (cases "cb_control self = Scale")
  case True
  with assms obtain "slider_control self dt r mm w = Inr (ctl, w')" "self' = self"
    by (auto simp: place_control_def split: sum.splits)
  then show ?thesis using slider_control_cells by simp
next
  case ns: False
  show ?thesis
  proof (cases "cb_control self = Radiobutton")
    case True
    with assms ns have "radio_control self ch rc w = Inr (ctl, self', w')"
      by (simp add: place_control_def)
    from radio_control_cells[OF this] show ?thesis by simp
  next
    case nr: False
    show ?thesis
    proof (cases "cb_control self = Checkbutton")
      case True
      with assms ns nr obtain "control_to_checkframe self w = Inr (ctl, w')" "self' = self"
        by (auto simp: place_control_def split: sum.splits)
      then show ?thesis using control_to_checkframe_cells by simp
    next
      case False
      with assms ns nr have "control_to_optionsframe self ch sb w = Inr (ctl, self', w')"
        by (simp add: place_control_def)
      from control_to_optionsframe_cells[OF this] show ?thesis by simp
    qed
  qed
qed

lemma build_one_control_cells:
  assumes "build_one_control self ch dt r mm sb rc cw w = Inr (self', w')"
  shows "same_cells w w' \<and> cb_tk_var self' = cb_tk_var self"
proof -
  from assms obtain ctl w1 where
    pl: "place_control self ch dt r mm sb rc w = Inr (ctl, self', w1)"
    and w': "w' = finish_control ctl self' cw w1"
    by (auto simp: build_one_control_def split: sum.splits)
  from place_control_cells[OF pl] finish_control_cells[of w1 ctl self' cw] w'
  show ?thesis by (simp add: same_cells_def)
qed

lemma build_control_label_cells:
  "same_cells w (build_control_label self w) \<and> containers (build_control_label self w) = containers w"
  by (simp add: same_cells_def build_control_label_def Let_def case_prod_beta new_widget_def
        pack_def Tooltip_def)

lemma build_control_cells:
  assumes "build_control self ch dt r mm sb rc cw w = Inr (self', w')"
  shows "same_cells w w' \<and> cb_tk_var self' = cb_tk_var self"
proof -
  let ?w1 = "if cb_control self \<noteq> Checkbutton \<and> cb_control self \<noteq> Radiobutton
             then build_control_label self w else w"
  have a: "same_cells w ?w1"
    using build_control_label_cells by (simp add: same_cells_refl)
  from assms have "build_one_control self ch dt r mm sb rc cw ?w1 = Inr (self', w')"
    by (simp add: build_control_def Let_def)
  from build_one_control_cells[OF this] a show ?thesis by (simp add: same_cells_def)
qed

lemma set_tk_var_value:
  "var_get (fst (set_tk_var dflt dtype sel bn w)) (snd (set_tk_var dflt dtype sel bn w))
     = initial_value dflt sel bn
   \<and> fst (set_tk_var dflt dtype sel bn w) = next_var w"
  by (simp add: set_tk_var_def new_var_def var_set_def var_get_def Let_def)

lemma ControlBuilder_var:
  assumes "ControlBuilder parent title args w = Inr (cb, w')"
  shows "cb_tk_var cb = next_var w
     \<and> var_get (cb_tk_var cb) w'
         = initial_value (a_default args) (a_selected_value args) (a_blank_nones args)"
proof -
  let ?w1 = "snd (control_frame parent w)"
  let ?tv = "set_tk_var (a_default args) (a_dtype args) (a_selected_value args)
               (a_blank_nones args) ?w1"
  let ?self = "\<lparr>cb_title = title, cb_default = a_default args,
                  cb_helptext = format_helptext title (a_helptext args),
                  cb_helpset = False, cb_label_width = a_label_width args,
                  cb_filebrowser = None, cb_frame = fst (control_frame parent w),
                  cb_chkbtns = a_checkbuttons_frame args,
                  cb_control = set_control (a_dtype args) (a_choices args) (a_is_radio args),
                  cb_tk_var = fst ?tv\<rparr>"
  from assms have run: "build_control ?self (a_choices args) (a_dtype args) (a_rounding args)
       (a_min_max args) (a_sysbrowser args) (a_radio_columns args) (a_control_width args) (snd ?tv)
       = Inr (cb, w')"
    by (simp add: ControlBuilder_def Let_def case_prod_beta)
  from build_control_cells[OF run] have c: "same_cells (snd ?tv) w'" "cb_tk_var cb = fst ?tv"
    by simp_all
  have nv: "next_var ?w1 = next_var w"
    by (simp add: control_frame_def new_widget_def pack_def case_prod_beta)
  note tv = set_tk_var_value[of "a_default args" "a_dtype args" "a_selected_value args"
         "a_blank_nones args" ?w1]
  have f: "cb_tk_var cb = next_var w" using c(2) tv nv by simp
  have "var_get (cb_tk_var cb) w' = var_get (fst ?tv) (snd ?tv)"
    using c by (simp add: same_cells_def var_get_def)
  also have "\<dots> = initial_value (a_default args) (a_selected_value args) (a_blank_nones args)"
    using tv by blast
  finally show ?thesis using f by simp
qed

lemma place_control_error:
  assumes "cb_control s1 = cb_control s2" "cb_control s1 \<noteq> Radiobutton"
    "cb_chkbtns s1 = cb_chkbtns s2" "icons w1 = icons w2" "containers w1 = containers w2"
  shows "place_control s1 ch dt r mm sb rc w1 = Inl e \<longleftrightarrow> place_control s2 ch dt r mm sb rc w2 = Inl e"
proof (cases "cb_control s1 = Scale")
  case True
  with assms(1) show ?thesis
    by (simp add: place_control_def sum_case_Inl_iff' slider_control_error)
next
  case ns: False
  show ?thesis
  proof (cases "cb_control s1 = Checkbutton")
    case True
    have "control_to_checkframe s1 w1 = Inl e \<longleftrightarrow> control_to_checkframe s2 w2 = Inl e"
      using assms(5,3) by (rule control_to_checkframe_error)
    with True assms(1) show ?thesis
      by (simp add: place_control_def sum_case_Inl_iff')
  next
    case False
    have "control_to_optionsframe s1 ch sb w1 = Inl e \<longleftrightarrow> control_to_optionsframe s2 ch sb w2 = Inl e"
      using assms(4,1) by (rule control_to_optionsframe_error)
    with False ns assms(1,2) show ?thesis
      by (simp add: place_control_def)
  qed
qed

section \<open>The initial value of the bound variable\<close>

text \<open>Definitions to unfold when a construction is run on a concrete input.\<close>

lemmas toolkit_defs = mk_widget_def new_widget_def pack_def var_set_def var_get_def new_var_def
  Tooltip_def cm_bind_def configure_def bind_def style_configure_def fresh_world_def tk_root_def

lemmas string_defs = is_upper_def is_lower_def is_digit_def is_space_def is_linebreak_def
  upper_char_def lower_char_def py_lower_def py_title_def py_startswith_def py_replace_def
  py_split_ws_def py_splitlines_def strip_non_word_def char_of_def bit_Suc_0_iff

lemmas builder_defs = format_helptext_def has_choices_def control_frame_def set_control_def
  initial_value_def set_tk_var_def display_title_def build_control_label_def
  set_control_width_def control_to_optionsframe_def place_control_def finish_control_def
  build_one_control_def build_control_def ControlBuilder_def

lemmas panel_defs = set_subframes_def AutoFillContainer_def items_def subframe_def new_afc_def
  subframe_of_def get_opts_frame_def add_scrollbar_def checkbuttons_frame_def
  get_group_frame_def build_panel_def ControlPanel_def range_items_def range_len_def

lemma new_afc_cells: "same_cells w (snd (new_afc parent columns w))"
  using AutoFillContainer_cells[of w parent columns]
  by (simp add: new_afc_def case_prod_beta Let_def same_cells_def)

lemma checkbuttons_frame_cells: "same_cells w (snd (checkbuttons_frame self frame w))"
proof -
  let ?nw = "new_widget ((mk_widget Frame frame)\<lparr>w_name := Name ''chkbuttons''\<rparr>) w"
  have "same_cells w (snd ?nw)" by (rule same_cells_steps)
  moreover have "same_cells (snd ?nw) (snd (new_afc (fst ?nw) (cp_radio_columns self) (snd ?nw)))"
    by (rule new_afc_cells)
  ultimately show ?thesis
    by (simp add: checkbuttons_frame_def case_prod_beta Let_def same_cells_def)
qed

lemma get_group_frame_cells:
  assumes "get_group_frame self grp w = Inr (gf, self', w')"
  shows "same_cells w w' \<and> cp_label_width self' = cp_label_width self"
proof (cases "map_of (cp_group_frames self) (py_lower grp)")
  case (Some g)
  with assms show ?thesis by (simp add: get_group_frame_def Let_def same_cells_refl)
next
  case None
  with assms obtain opts_frame w1 where sf: "subframe_of (cp_optsframe self) w = Inr (opts_frame, w1)"
    by (auto simp: get_group_frame_def Let_def split: sum.splits)
  let ?gw = "if py_lower grp = ''_master''
             then new_widget ((mk_widget Frame opts_frame)\<lparr>w_name := Name (py_lower (py_lower grp))\<rparr>) w1
             else new_widget ((mk_widget LabelFrame opts_frame)
                    \<lparr>w_name := Name (py_lower (py_lower grp)),
                     w_text := Some (if py_lower grp = ''_master'' then [] else py_title (py_lower grp)),
                     w_style := Some ''BlueText.TLabelframe''\<rparr>) w1"
  let ?w3 = "pack (fst ?gw) (snd ?gw)"
  from assms None sf have w': "w' = snd (checkbuttons_frame self (fst ?gw) ?w3)"
    and s': "cp_label_width self' = cp_label_width self"
    by (auto simp: get_group_frame_def Let_def case_prod_beta split: if_splits)
  have a: "same_cells w w1" using subframe_of_cells[OF sf] .
  have b: "same_cells w1 ?w3" by (simp add: same_cells_def pack_def new_widget_def)
  have c: "same_cells ?w3 w'" unfolding w' by (rule checkbuttons_frame_cells)
  from a b c s' show ?thesis by (simp add: same_cells_def)
qed

lemma ControlBuilder_vars:
  assumes "ControlBuilder parent title args w = Inr (cb, w')"
  shows "cb_tk_var cb = next_var w \<and> next_var w' = Suc (next_var w)
     \<and> vars w' = (vars w)(next_var w :=
          initial_value (a_default args) (a_selected_value args) (a_blank_nones args))"
proof -
  let ?w1 = "snd (control_frame parent w)"
  let ?tv = "set_tk_var (a_default args) (a_dtype args) (a_selected_value args)
               (a_blank_nones args) ?w1"
  let ?self = "\<lparr>cb_title = title, cb_default = a_default args,
                  cb_helptext = format_helptext title (a_helptext args),
                  cb_helpset = False, cb_label_width = a_label_width args,
                  cb_filebrowser = None, cb_frame = fst (control_frame parent w),
                  cb_chkbtns = a_checkbuttons_frame args,
                  cb_control = set_control (a_dtype args) (a_choices args) (a_is_radio args),
                  cb_tk_var = fst ?tv\<rparr>"
  from assms have run: "build_control ?self (a_choices args) (a_dtype args) (a_rounding args)
       (a_min_max args) (a_sysbrowser args) (a_radio_columns args) (a_control_width args) (snd ?tv)
       = Inr (cb, w')"
    by (simp add: ControlBuilder_def Let_def case_prod_beta)
  from build_control_cells[OF run] have c: "same_cells (snd ?tv) w'" "cb_tk_var cb = fst ?tv"
    by simp_all
  have w1: "next_var ?w1 = next_var w" "vars ?w1 = vars w"
    by (simp_all add: control_frame_def new_widget_def pack_def case_prod_beta)
  have tv: "fst ?tv = next_var w" "next_var (snd ?tv) = Suc (next_var w)"
    "vars (snd ?tv) = (vars w)(next_var w :=
          initial_value (a_default args) (a_selected_value args) (a_blank_nones args))"
    using w1 by (simp_all add: set_tk_var_def new_var_def var_set_def Let_def)
  from c tv show ?thesis by (simp add: same_cells_def)
qed


lemma option_built_mono:
  assumes "option_built bn lo w1 kv kv'" "lo' \<le> lo" "next_var w1 \<le> next_var w2"
    "\<forall>v < next_var w1. vars w2 v = vars w1 v"
  shows "option_built bn lo' w2 kv kv'"
proof (cases "fst kv = ''helptext''")
  case True
  with assms(1) show ?thesis by (simp add: option_built_def)
next
  case False
  with assms(1) obtain item item' var where
    v: "snd kv = Descr item" "snd kv' = Descr item'" "o_selected item' = Some var"
    by (cases "snd kv"; cases "snd kv'"; cases "o_selected (case snd kv' of Descr i \<Rightarrow> i)")
       (auto simp: option_built_def)
  with assms(1) False have p: "fst kv' = fst kv" "o_default item' = o_default item"
    "o_value item' = o_value item" "lo \<le> var" "var < next_var w1"
    "vars w1 var = initial_value (o_default item) (o_value item) bn"
    by (simp_all add: option_built_def)
  from p(5) assms(4) have "vars w2 var = vars w1 var" by simp
  with p assms(2,3) v False show ?thesis by (simp add: option_built_def)
qed

lemma build_options_vars:
  assumes "build_options self rc bn opts w = Inr (opts', self', w')"
  shows "next_var w \<le> next_var w' \<and> (\<forall>v < next_var w. vars w' v = vars w v)
     \<and> list_all2 (option_built bn (next_var w) w') opts opts'"
  using assms
proof (induction opts arbitrary: self w opts' self' w')
  case Nil
  then show ?case by simp
next
  case (Cons kv rest)
  obtain key val where kv: "kv = (key, val)" by (cases kv)
  show ?case
  proof (cases "key = ''helptext''")
    case True
    with Cons.prems kv obtain rest1 where
      rec: "build_options self rc bn rest w = Inr (rest1, self', w')"
      and o': "opts' = (key, val) # rest1"
      by (auto split: sum.splits)
    from Cons.IH[OF rec] True kv o' show ?thesis
      by (simp add: option_built_def)
  next
    case False
    with Cons.prems kv obtain item where item: "val = Descr item"
      by (cases val) auto
    let ?grp = "case o_group item of None \<Rightarrow> ''_master'' | Some g \<Rightarrow> g"
    from Cons.prems kv False item obtain gf self1 w1 where
      gg: "get_group_frame self ?grp w = Inr (gf, self1, w1)"
      by (auto simp: Let_def split: sum.splits)
    let ?args = "\<lparr>a_dtype = o_type item, a_default = o_default item,
                  a_selected_value = o_value item, a_choices = o_choices item,
                  a_is_radio = o_gui_radio item, a_rounding = o_rounding item,
                  a_min_max = o_min_max item, a_sysbrowser = o_sysbrowser item,
                  a_helptext = o_helptext item, a_radio_columns = rc,
                  a_label_width = cp_label_width self1,
                  a_checkbuttons_frame = Some (gf_chkbtns gf),
                  a_control_width = None, a_blank_nones = bn\<rparr>"
    from Cons.prems kv False item gg obtain ctl w2 where
      cb: "ControlBuilder (gf_frame gf) key ?args w1 = Inr (ctl, w2)"
      by (auto simp: Let_def split: sum.splits)
    let ?w3 = "if items (containers w2 (gf_chkbtns gf)) > 0
               then pack (afc_parent (containers w2 (gf_chkbtns gf))) w2 else w2"
    let ?item1 = "item\<lparr>o_selected := Some (cb_tk_var ctl), o_gui_option := Some ctl\<rparr>"
    from Cons.prems kv False item gg cb obtain rest1 where
      rec: "build_options self1 rc bn rest ?w3 = Inr (rest1, self', w')"
      and o': "opts' = (key, Descr ?item1) # rest1"
      by (auto simp: Let_def split: sum.splits)
    from get_group_frame_cells[OF gg] have g: "next_var w1 = next_var w" "vars w1 = vars w"
      by (simp_all add: same_cells_def)
    from ControlBuilder_vars[OF cb] g have c: "cb_tk_var ctl = next_var w"
      "next_var w2 = Suc (next_var w)"
      "vars w2 = (vars w)(next_var w := initial_value (o_default item) (o_value item) bn)"
      by simp_all
    have w3: "next_var ?w3 = Suc (next_var w)"
      "vars ?w3 = (vars w)(next_var w := initial_value (o_default item) (o_value item) bn)"
      using c by (simp_all add: pack_def)
    from Cons.IH[OF rec] have ih: "next_var ?w3 \<le> next_var w'"
      "\<forall>v < next_var ?w3. vars w' v = vars ?w3 v"
      "list_all2 (option_built bn (next_var ?w3) w') rest rest1"
      by blast+
    have n: "next_var w \<le> next_var w'" using ih(1) w3(1) by simp
    have keep: "\<forall>v < next_var w. vars w' v = vars w v"
      using ih(2) w3 by auto
    have hd: "option_built bn (next_var w) w' (key, val) (key, Descr ?item1)"
      using False item c ih(1,2) w3 by (simp add: option_built_def)
    have weaken: "option_built bn (next_var w) w' x y"
      if "option_built bn (next_var ?w3) w' x y" for x y
      using that by (rule option_built_mono) (simp_all add: w3(1))
    have tl: "list_all2 (option_built bn (next_var w) w') rest rest1"
      using ih(3) weaken by (rule list_all2_mono)
    from n keep hd tl kv o' show ?thesis by simp
  qed
qed


lemma resolve_filebrowsers_binding:
  assumes "resolve_filebrowsers all_opts opts = Inr opts'"
  shows "list_all2 same_binding opts opts'"
  using assms
proof (induction opts arbitrary: opts')
  case Nil
  then show ?case by simp
next
  case (Cons kv rest)
  obtain key val where kv: "kv = (key, val)" by (cases kv)
  show ?case
  proof (cases "key = ''helptext''")
    case True
    with Cons.prems kv obtain rest1 where
      rec: "resolve_filebrowsers all_opts rest = Inr rest1" and o': "opts' = (key, val) # rest1"
      by (auto split: sum.splits)
    from Cons.IH[OF rec] True kv o' show ?thesis by (simp add: same_binding_def)
  next
    case False
    with Cons.prems kv obtain item where item: "val = Descr item"
      by (cases val) auto
    from Cons.prems kv False item obtain ctl where ctl: "o_gui_option item = Some ctl"
      by (auto split: option.splits)
    let ?r = "case cb_filebrowser ctl of
                None \<Rightarrow> Inr item
              | Some fb \<Rightarrow>
                  (case set_context_action_option fb all_opts of
                     Inl e \<Rightarrow> Inl e
                   | Inr fb1 \<Rightarrow>
                       Inr (item\<lparr>o_gui_option := Some (ctl\<lparr>cb_filebrowser := Some fb1\<rparr>)\<rparr>))"
    from Cons.prems kv False item ctl obtain item1 rest1 where
      r: "?r = Inr item1" and rec: "resolve_filebrowsers all_opts rest = Inr rest1"
      and o': "opts' = (key, Descr item1) # rest1"
      by (auto split: sum.splits)
    from r have keep: "o_default item1 = o_default item" "o_value item1 = o_value item"
      "o_selected item1 = o_selected item"
      by (auto split: option.splits sum.splits)
    from Cons.IH[OF rec] keep False kv item o' show ?thesis by (simp add: same_binding_def)
  qed
qed

lemma option_built_then_binding:
  assumes "option_built bn lo w' a b" "same_binding b c"
  shows "option_bound bn w' a c"
proof (cases "fst a = ''helptext''")
  case True
  with assms show ?thesis by (simp add: option_built_def same_binding_def option_bound_def)
next
  case False
  with assms(1) obtain item item' var where
    v: "snd a = Descr item" "snd b = Descr item'" "o_selected item' = Some var"
    by (cases "snd a"; cases "snd b"; cases "o_selected (case snd b of Descr i \<Rightarrow> i)")
       (auto simp: option_built_def)
  with assms(1) False have p: "fst b = fst a"
    "vars w' var = initial_value (o_default item) (o_value item) bn"
    by (simp_all add: option_built_def)
  from assms(2) p(1) False v obtain item'' where
    c: "snd c = Descr item''" "o_selected item'' = Some var" "fst c = fst a"
    by (cases "snd c") (auto simp: same_binding_def)
  from v c p False show ?thesis by (simp add: option_bound_def var_get_def)
qed

lemma build_panel_bound:
  assumes "build_panel self rc bn w = Inr (cp, w')"
  shows "list_all2 (option_bound bn w') (cp_options self) (cp_options cp)"
proof -
  let ?w2 = "bind (cp_canvas self) ''<Configure>'' (add_scrollbar self w)"
  from assms obtain opts1 self1 where
    bo: "build_options self rc bn (cp_options self) ?w2 = Inr (opts1, self1, w')"
    by (auto simp: build_panel_def Let_def split: sum.splits)
  from assms bo obtain opts2 where
    rf: "resolve_filebrowsers opts1 opts1 = Inr opts2" and cp: "cp = self1\<lparr>cp_options := opts2\<rparr>"
    by (auto simp: build_panel_def Let_def split: sum.splits)
  from build_options_vars[OF bo]
  have a: "list_all2 (option_built bn (next_var ?w2) w') (cp_options self) opts1" by blast
  have b: "list_all2 same_binding opts1 opts2" using rf by (rule resolve_filebrowsers_binding)
  have "list_all2 (option_bound bn w') (cp_options self) opts2"
    using option_built_then_binding a b by (rule list_all2_trans)
  then show ?thesis using cp by simp
qed

lemma ControlPanel_bound:
  assumes "ControlPanel parent opts lw cols rc ht bn w = Inr (cp, w')"
  shows "list_all2 (option_bound bn w') opts (cp_options cp)"
proof -
  from assms obtain self w7 where
    bp: "build_panel self rc bn w7 = Inr (cp, w')" and o: "cp_options self = opts"
    by (auto simp: ControlPanel_def Let_def case_prod_beta split: sum.splits)
  from build_panel_bound[OF bp] o show ?thesis by simp
qed

text \<open>
  Claim C9. The variable bound to an option starts with the selected value when that is
  not \<^verbatim>\<open>None\<close>, otherwise with the default; when both are \<^verbatim>\<open>None\<close> and
  \<^verbatim>\<open>blank_nones\<close> is set it starts with the empty string, not with \<^verbatim>\<open>None\<close>. This
  is the value \<^verbatim>\<open>set_tk_var\<close> stores in the new variable, the value the variable
  of a control builder still holds when the builder has been constructed, and, for
  every option of a panel, the value its selected variable holds when the panel has
  been built.
\<close>

theorem bound_variable_initial_value:
  "initial_value dflt sel bn
     = (if sel \<noteq> PNone then sel else if dflt \<noteq> PNone then dflt
        else if bn then PStr [] else PNone)
   \<and> var_get (fst (set_tk_var dflt dtype sel bn w)) (snd (set_tk_var dflt dtype sel bn w))
     = initial_value dflt sel bn
   \<and> (ControlBuilder parent title args w = Inr (cb, w')
      \<longrightarrow> var_get (cb_tk_var cb) w'
          = initial_value (a_default args) (a_selected_value args) (a_blank_nones args))
   \<and> (ControlPanel pparent opts label_width cols radio_cols header blank pw = Inr (cp, pw')
      \<longrightarrow> list_all2 (option_bound blank pw') opts (cp_options cp))"
proof (intro conjI impI)
  show "initial_value dflt sel bn
     = (if sel \<noteq> PNone then sel else if dflt \<noteq> PNone then dflt
        else if bn then PStr [] else PNone)"
    by (simp add: initial_value_def)
  show "var_get (fst (set_tk_var dflt dtype sel bn w)) (snd (set_tk_var dflt dtype sel bn w))
     = initial_value dflt sel bn"
    using set_tk_var_value by blast
next
  assume "ControlBuilder parent title args w = Inr (cb, w')"
  from ControlBuilder_var[OF this]
  show "var_get (cb_tk_var cb) w'
          = initial_value (a_default args) (a_selected_value args) (a_blank_nones args)"
    by blast
next
  assume "ControlPanel pparent opts label_width cols radio_cols header blank pw = Inr (cp, pw')"
  then show "list_all2 (option_bound blank pw') opts (cp_options cp)"
    by (rule ControlPanel_bound)
qed

text \<open>
  The theorem of C9 for a text option without default and without selected value, built
  under the root window with \<^verbatim>\<open>blank_nones\<close> set: construction succeeds and the
  variable holds the empty string; and for a panel with one text option whose default
  is \<^verbatim>\<open>x\<close>.
\<close>

theorem bound_variable_initial_value_witness:
  "\<not> isl (ControlBuilder 0 ''name''
       \<lparr>a_dtype = TStr, a_default = PNone, a_selected_value = PNone, a_choices = None,
        a_is_radio = False, a_rounding = None, a_min_max = None, a_sysbrowser = None,
        a_helptext = None, a_radio_columns = 3, a_label_width = 20,
        a_checkbuttons_frame = None, a_control_width = None, a_blank_nones = True\<rparr> (tk_root []))
   \<and> var_get
        (cb_tk_var (fst (projr (ControlBuilder 0 ''name''
          \<lparr>a_dtype = TStr, a_default = PNone, a_selected_value = PNone, a_choices = None,
           a_is_radio = False, a_rounding = None, a_min_max = None, a_sysbrowser = None,
           a_helptext = None, a_radio_columns = 3, a_label_width = 20,
           a_checkbuttons_frame = None, a_control_width = None, a_blank_nones = True\<rparr> (tk_root [])))))
        (snd (projr (ControlBuilder 0 ''name''
          \<lparr>a_dtype = TStr, a_default = PNone, a_selected_value = PNone, a_choices = None,
           a_is_radio = False, a_rounding = None, a_min_max = None, a_sysbrowser = None,
           a_helptext = None, a_radio_columns = 3, a_label_width = 20,
           a_checkbuttons_frame = None, a_control_width = None, a_blank_nones = True\<rparr> (tk_root []))))
      = PStr []
   \<and> \<not> isl (ControlPanel 0
           [(''name'', Descr \<lparr>o_type = TStr, o_default = PStr ''x'', o_value = PNone,
               o_choices = None, o_gui_radio = False, o_rounding = None, o_min_max = None,
               o_helptext = Some ''the name'', o_group = None, o_sysbrowser = None,
               o_opts = Some [''-n''], o_selected = None, o_gui_option = None\<rparr>)]
           20 1 4 None True (tk_root []))
   \<and> list_all2
        (option_bound True (snd (projr (ControlPanel 0
           [(''name'', Descr \<lparr>o_type = TStr, o_default = PStr ''x'', o_value = PNone,
               o_choices = None, o_gui_radio = False, o_rounding = None, o_min_max = None,
               o_helptext = Some ''the name'', o_group = None, o_sysbrowser = None,
               o_opts = Some [''-n''], o_selected = None, o_gui_option = None\<rparr>)]
           20 1 4 None True (tk_root [])))))
        [(''name'', Descr \<lparr>o_type = TStr, o_default = PStr ''x'', o_value = PNone,
               o_choices = None, o_gui_radio = False, o_rounding = None, o_min_max = None,
               o_helptext = Some ''the name'', o_group = None, o_sysbrowser = None,
               o_opts = Some [''-n''], o_selected = None, o_gui_option = None\<rparr>)]
        (cp_options (fst (projr (ControlPanel 0
           [(''name'', Descr \<lparr>o_type = TStr, o_default = PStr ''x'', o_value = PNone,
               o_choices = None, o_gui_radio = False, o_rounding = None, o_min_max = None,
               o_helptext = Some ''the name'', o_group = None, o_sysbrowser = None,
               o_opts = Some [''-n''], o_selected = None, o_gui_option = None\<rparr>)]
           20 1 4 None True (tk_root [])))))"
proof -
  let ?args = "\<lparr>a_dtype = TStr, a_default = PNone, a_selected_value = PNone, a_choices = None,
        a_is_radio = False, a_rounding = None, a_min_max = None, a_sysbrowser = None,
        a_helptext = None, a_radio_columns = 3, a_label_width = 20,
        a_checkbuttons_frame = None, a_control_width = None, a_blank_nones = True\<rparr>"
  let ?X = "ControlBuilder 0 ''name'' ?args (tk_root [])"
  let ?opts = "[(''name'', Descr \<lparr>o_type = TStr, o_default = PStr ''x'', o_value = PNone,
               o_choices = None, o_gui_radio = False, o_rounding = None, o_min_max = None,
               o_helptext = Some ''the name'', o_group = None, o_sysbrowser = None,
               o_opts = Some [''-n''], o_selected = None, o_gui_option = None\<rparr>)]"
  let ?P = "ControlPanel 0 ?opts 20 1 4 None True (tk_root [])"
  have ok: "\<not> isl ?X"
    by (simp add: toolkit_defs builder_defs string_defs Let_def)
  then have run: "?X = Inr (fst (projr ?X), snd (projr ?X))"
    by (cases ?X) auto
  have pok: "\<not> isl ?P"
    by (simp add: toolkit_defs string_defs builder_defs panel_defs upt_rec Let_def)
  then have prun: "?P = Inr (fst (projr ?P), snd (projr ?P))"
    by (cases ?P) auto
  note t = bound_variable_initial_value[where parent = 0 and title = "''name''" and args = ?args
         and w = "tk_root []" and cb = "fst (projr ?X)" and w' = "snd (projr ?X)"
         and pparent = 0 and opts = ?opts and label_width = 20 and cols = 1 and radio_cols = 4
         and header = None and blank = True and pw = "tk_root []"
         and cp = "fst (projr ?P)" and pw' = "snd (projr ?P)"]
  from t[THEN conjunct2, THEN conjunct2, THEN conjunct1, THEN mp, OF run]
  have a: "var_get (cb_tk_var (fst (projr ?X))) (snd (projr ?X)) = PStr []"
    by (simp add: initial_value_def)
  from t[THEN conjunct2, THEN conjunct2, THEN conjunct2, THEN mp, OF prun]
  have b: "list_all2 (option_bound True (snd (projr ?P))) ?opts (cp_options (fst (projr ?P)))" .
  show ?thesis using ok a pok b by blast
qed

section \<open>Radio groups need help text\<close>

text \<open>
  Claim C10. A control builder for a radio group (choices given and the radio flag set)
  whose help text is \<^verbatim>\<open>None\<close> fails with AttributeError: \<^verbatim>\<open>format_helptext\<close>
  returns \<^verbatim>\<open>None\<close> for \<^verbatim>\<open>None\<close>, and \<^verbatim>\<open>radio_control\<close> splits the formatted
  text into lines first of all. For every other kind of control, construction without
  help text fails exactly when construction with any help text fails, and with the
  same error: absent help text never is the cause of a failure there.
\<close>

theorem radio_group_needs_helptext:
  "format_helptext title None = None
   \<and> (cb_helptext self = None \<longrightarrow> radio_control self choices columns w = Inl AttributeError)
   \<and> (has_choices (a_choices args) \<and> a_is_radio args \<and> a_helptext args = None
      \<longrightarrow> ControlBuilder parent title args w = Inl AttributeError)
   \<and> (\<not> (has_choices (a_choices args) \<and> a_is_radio args)
      \<longrightarrow> (ControlBuilder parent title (args\<lparr>a_helptext := None\<rparr>) w = Inl e
           \<longleftrightarrow> ControlBuilder parent title (args\<lparr>a_helptext := Some h\<rparr>) w = Inl e))"
proof (intro conjI impI)
  show "format_helptext title None = None" by (simp add: format_helptext_def)
next
  assume "cb_helptext self = None"
  then show "radio_control self choices columns w = Inl AttributeError"
    by (simp add: radio_control_def)
next
  assume h: "has_choices (a_choices args) \<and> a_is_radio args \<and> a_helptext args = None"
  then have c: "set_control (a_dtype args) (a_choices args) (a_is_radio args) = Radiobutton"
    by (simp add: set_control_def)
  from h have f: "format_helptext title (a_helptext args) = None"
    by (simp add: format_helptext_def)
  show "ControlBuilder parent title args w = Inl AttributeError"
    by (simp add: ControlBuilder_def Let_def case_prod_beta build_control_def c f
          build_one_control_def place_control_def radio_control_def)
next
  assume nr: "\<not> (has_choices (a_choices args) \<and> a_is_radio args)"
  let ?c = "set_control (a_dtype args) (a_choices args) (a_is_radio args)"
  from nr have c: "?c \<noteq> Radiobutton"
    by (auto simp: set_control_def)
  let ?w1 = "snd (control_frame parent w)"
  let ?tv = "set_tk_var (a_default args) (a_dtype args) (a_selected_value args)
               (a_blank_nones args) ?w1"
  let ?self = "\<lambda>ht. \<lparr>cb_title = title, cb_default = a_default args, cb_helptext = ht,
                  cb_helpset = False, cb_label_width = a_label_width args,
                  cb_filebrowser = None, cb_frame = fst (control_frame parent w),
                  cb_chkbtns = a_checkbuttons_frame args, cb_control = ?c,
                  cb_tk_var = fst ?tv\<rparr>"
  let ?lab = "\<lambda>ht. if ?c \<noteq> Checkbutton \<and> ?c \<noteq> Radiobutton
                   then build_control_label (?self ht) (snd ?tv) else snd ?tv"
  have run: "ControlBuilder parent title (args\<lparr>a_helptext := x\<rparr>) w = Inl e
      \<longleftrightarrow> place_control (?self (format_helptext title x)) (a_choices args) (a_dtype args)
            (a_rounding args) (a_min_max args) (a_sysbrowser args) (a_radio_columns args)
            (?lab (format_helptext title x)) = Inl e" for x
    by (simp add: ControlBuilder_def Let_def case_prod_beta build_control_def
          build_one_control_error_iff)
  have agree: "icons (?lab a) = icons (?lab b) \<and> containers (?lab a) = containers (?lab b)" for a b
    using build_control_label_cells by (simp add: same_cells_def)
  have "place_control (?self a) (a_choices args) (a_dtype args)
            (a_rounding args) (a_min_max args) (a_sysbrowser args) (a_radio_columns args)
            (?lab a) = Inl e
      \<longleftrightarrow> place_control (?self b) (a_choices args) (a_dtype args)
            (a_rounding args) (a_min_max args) (a_sysbrowser args) (a_radio_columns args)
            (?lab b) = Inl e" for a b
    using c agree[of a b] by (intro place_control_error) simp_all
  then show "ControlBuilder parent title (args\<lparr>a_helptext := None\<rparr>) w = Inl e
           \<longleftrightarrow> ControlBuilder parent title (args\<lparr>a_helptext := Some h\<rparr>) w = Inl e"
    unfolding run by blast
qed

text \<open>
  The theorem of C10 for a radio group with the choices \<^verbatim>\<open>a\<close> and \<^verbatim>\<open>b\<close> under the
  root window: without help text its construction fails with AttributeError, with the
  help text \<^verbatim>\<open>pick one\<close> it succeeds.
\<close>

theorem radio_group_needs_helptext_witness:
  "has_choices (Some [''a'', ''b''])
   \<and> ControlBuilder 0 ''mode''
       \<lparr>a_dtype = TStr, a_default = PStr ''a'', a_selected_value = PNone,
        a_choices = Some [''a'', ''b''], a_is_radio = True, a_rounding = None, a_min_max = None,
        a_sysbrowser = None, a_helptext = None, a_radio_columns = 3, a_label_width = 20,
        a_checkbuttons_frame = None, a_control_width = None, a_blank_nones = True\<rparr> (tk_root [])
     = Inl AttributeError
   \<and> \<not> isl (ControlBuilder 0 ''mode''
       \<lparr>a_dtype = TStr, a_default = PStr ''a'', a_selected_value = PNone,
        a_choices = Some [''a'', ''b''], a_is_radio = True, a_rounding = None, a_min_max = None,
        a_sysbrowser = None, a_helptext = Some ''pick one'', a_radio_columns = 3, a_label_width = 20,
        a_checkbuttons_frame = None, a_control_width = None, a_blank_nones = True\<rparr> (tk_root []))"
proof -
  let ?args = "\<lparr>a_dtype = TStr, a_default = PStr ''a'', a_selected_value = PNone,
        a_choices = Some [''a'', ''b''], a_is_radio = True, a_rounding = None, a_min_max = None,
        a_sysbrowser = None, a_helptext = None, a_radio_columns = 3, a_label_width = 20,
        a_checkbuttons_frame = None, a_control_width = None, a_blank_nones = True\<rparr>"
  have h: "has_choices (a_choices ?args) \<and> a_is_radio ?args \<and> a_helptext ?args = None"
    by (simp add: has_choices_def)
  note t = radio_group_needs_helptext[where args = ?args and parent = 0 and title = "''mode''"
             and w = "tk_root []"]
  have fail: "ControlBuilder 0 ''mode'' ?args (tk_root []) = Inl AttributeError"
    by (rule t[THEN conjunct2, THEN conjunct2, THEN conjunct1, THEN mp, OF h])
  have good: "\<not> isl (ControlBuilder 0 ''mode'' (?args\<lparr>a_helptext := Some ''pick one''\<rparr>) (tk_root []))"
    by (simp add: toolkit_defs string_defs builder_defs panel_defs radio_control_def
          helpitems_get_def upt_rec Let_def)
  show ?thesis using fail good by (simp add: has_choices_def)
qed

section \<open>The check box region of a group\<close>

lemma set_subframes_loop_items:
  "fst (snd (set_subframes_loop parent columns idxs (subs, n, w))) = n + length idxs"
proof (induction idxs arbitrary: subs n w)
  case Nil
  show ?case by simp
next
  case (Cons idx rest)
  show ?case
  proof (cases "columns = 1")
    case True
    then show ?thesis using Cons.IH[of "subs @ [parent]" "Suc n" w] by simp
  next
    case False
    then show ?thesis by (simp add: Cons.IH case_prod_beta Let_def)
  qed
qed

lemma items_counts_columns:
  "items (fst (AutoFillContainer parent columns w)) = range_len 0 columns 1"
  using set_subframes_loop_items[of parent columns "range_items 0 columns 1" "[]" 0 w]
  by (simp add: items_def AutoFillContainer_def set_subframes_def case_prod_beta
        length_range_items)

lemma subframe_keeps_items:
  assumes "subframe a = Inr (frame, a')"
  shows "items a' = items a"
  using assms by (auto simp: subframe_def items_def Let_def split: if_splits)

text \<open>
  Claim C1 on the code. A panel is built under the root window for a single text option
  \<^verbatim>\<open>name\<close> without a group, with four radio columns. No check button is created, and
  yet the frame \<^verbatim>\<open>chkbuttons\<close> of the group (widget 7, the parent of the group's
  check box container) is packed: \<^verbatim>\<open>items\<close> of the container is 4, the number of its
  columns, because \<^verbatim>\<open>_items\<close> is counted up in \<^verbatim>\<open>set_subframes\<close> and not when a
  control is placed.
\<close>

theorem checkbox_region_packed_without_checkbox:
  "(case ControlPanel 0
           [(''name'', Descr \<lparr>o_type = TStr, o_default = PStr ''x'', o_value = PNone,
               o_choices = None, o_gui_radio = False, o_rounding = None, o_min_max = None,
               o_helptext = Some ''the name'', o_group = None, o_sysbrowser = None,
               o_opts = Some [''-n''], o_selected = None, o_gui_option = None\<rparr>)]
           20 1 4 None True (tk_root []) of
      Inl e \<Rightarrow> False
    | Inr (cp, w) \<Rightarrow>
        cp_group_frames cp = [(''_master'', \<lparr>gf_frame = 6, gf_chkbtns = 1\<rparr>)]
        \<and> afc_parent (containers w 1) = 7
        \<and> w_name (widgets w ! 7) = Name ''chkbuttons''
        \<and> items (containers w 1) = 4
        \<and> filter (\<lambda>x. w_class x = Checkbutton) (widgets w) = []
        \<and> filter (\<lambda>i. i = 7) (packed w) = [7])"
  by (simp add: toolkit_defs string_defs builder_defs panel_defs upt_rec Let_def)

end
